theory Spec2Isabelle
  imports Complex_Main "HOL-Library.Multiset"
begin

section \<open>Host values: JavaScript numbers and strings\<close>

text \<open>
  A JavaScript number: not-a-number, the two infinities, or a finite IEEE-754 double, kept
  as the rational it denotes (the two zeros are one value here).
\<close>

datatype jsnum = NaN | PInf | NInf | Fin rat

definition pow2 :: "int \<Rightarrow> rat" where
  "pow2 e = (if 0 \<le> e then 2 ^ nat e else 1 / 2 ^ nat (- e))"

text \<open>
  The finite doubles are the numbers \<open>m * 2 ^ e\<close> with an integer \<open>m\<close> of magnitude below
  \<open>2 ^ 53\<close> and \<open>- 1074 \<le> e \<le> 971\<close>.
\<close>

definition exponents :: "int list" where
  "exponents = [- 1074 .. 971]"

definition is_double :: "rat \<Rightarrow> bool" where
  "is_double r =
     (\<exists>e \<in> set exponents.
        r / pow2 e = of_int \<lfloor>r / pow2 e\<rfloor> \<and> \<bar>r / pow2 e\<bar> < 2 ^ 53)"

text \<open>Rounding to the nearest integer, a tie going to the even one.\<close>

definition round_half_even :: "rat \<Rightarrow> int" where
  "round_half_even q =
     (let f = \<lfloor>q\<rfloor>; d = q - of_int f
      in if d < 1 / 2 then f
         else if 1 / 2 < d then f + 1
         else if even f then f else f + 1)"

definition signedInfinity :: "rat \<Rightarrow> jsnum" where
  "signedInfinity r = (if r < 0 then NInf else PInf)"

text \<open>
  The double nearest to a rational (round to nearest, ties to even). A representable number
  is its own rounding. Otherwise the spacing \<open>2 ^ e\<close> is that of the binade of \<open>r\<close>, the
  least exponent from \<open>- 1074\<close> on at which the magnitude stays below \<open>2 ^ 53\<close> spacings; a
  result of magnitude \<open>2 ^ 1024\<close> or more is an infinity.
\<close>

definition round_double :: "rat \<Rightarrow> jsnum" where
  "round_double r =
     (if is_double r then Fin r
      else
        (case find (\<lambda>e. \<bar>r\<bar> < 2 ^ 53 * pow2 e) exponents of
           None \<Rightarrow> signedInfinity r
         | Some e \<Rightarrow>
             let v = of_int (round_half_even (r / pow2 e)) * pow2 e
             in if 2 ^ 1024 \<le> \<bar>v\<bar> then signedInfinity r else Fin v))"

text \<open>The \<^verbatim>\<open>+\<close> of JavaScript on numbers: the exact sum of two doubles, rounded.\<close>

fun js_add :: "jsnum \<Rightarrow> jsnum \<Rightarrow> jsnum" where
  "js_add NaN _ = NaN"
| "js_add _ NaN = NaN"
| "js_add PInf NInf = NaN"
| "js_add NInf PInf = NaN"
| "js_add PInf _ = PInf"
| "js_add _ PInf = PInf"
| "js_add NInf _ = NInf"
| "js_add _ NInf = NInf"
| "js_add (Fin a) (Fin b) = round_double (a + b)"

text \<open>The binary \<^verbatim>\<open>-\<close>, and the test \<^verbatim>\<open>x > 0\<close>.\<close>

fun js_neg :: "jsnum \<Rightarrow> jsnum" where
  "js_neg NaN = NaN"
| "js_neg PInf = NInf"
| "js_neg NInf = PInf"
| "js_neg (Fin a) = Fin (- a)"

definition js_sub :: "jsnum \<Rightarrow> jsnum \<Rightarrow> jsnum" where
  "js_sub a b = js_add a (js_neg b)"

fun js_positive :: "jsnum \<Rightarrow> bool" where
  "js_positive NaN = False"
| "js_positive PInf = True"
| "js_positive NInf = False"
| "js_positive (Fin a) = (0 < a)"

text \<open>Strings are ASCII here; the white space of \<^verbatim>\<open>trim\<close> and \<^verbatim>\<open>parseFloat\<close> is TAB, LF, VT, FF, CR and SP.\<close>

definition isWhiteSpace :: "char \<Rightarrow> bool" where
  "isWhiteSpace c = (c \<in> set [CHR 0x09, CHR 0x0A, CHR 0x0B, CHR 0x0C, CHR 0x0D, CHR '' ''])"

definition isDigit :: "char \<Rightarrow> bool" where
  "isDigit c = (c \<in> set ''0123456789'')"

definition digitVal :: "char \<Rightarrow> nat" where
  "digitVal c = (case map_of (zip ''0123456789'' [0, 1, 2, 3, 4, 5, 6, 7, 8, 9]) c of
                   None \<Rightarrow> 0 | Some d \<Rightarrow> d)"

definition digitsVal :: "string \<Rightarrow> nat" where
  "digitsVal ds = foldl (\<lambda>n c. 10 * n + digitVal c) 0 ds"

definition trim :: "string \<Rightarrow> string" where
  "trim s = rev (dropWhile isWhiteSpace (rev (dropWhile isWhiteSpace s)))"

definition toLowerChar :: "char \<Rightarrow> char" where
  "toLowerChar c =
     (case map_of (zip ''ABCDEFGHIJKLMNOPQRSTUVWXYZ'' ''abcdefghijklmnopqrstuvwxyz'') c of
        None \<Rightarrow> c | Some l \<Rightarrow> l)"

definition toUpperChar :: "char \<Rightarrow> char" where
  "toUpperChar c =
     (case map_of (zip ''abcdefghijklmnopqrstuvwxyz'' ''ABCDEFGHIJKLMNOPQRSTUVWXYZ'') c of
        None \<Rightarrow> c | Some u \<Rightarrow> u)"

definition toLowerCase :: "string \<Rightarrow> string" where
  "toLowerCase s = map toLowerChar s"

definition toUpperCase :: "string \<Rightarrow> string" where
  "toUpperCase s = map toUpperChar s"

text \<open>\<^verbatim>\<open>s.replace(a, b)\<close> with a string pattern replaces the first occurrence only.\<close>

fun replaceFirst :: "char \<Rightarrow> char \<Rightarrow> string \<Rightarrow> string" where
  "replaceFirst a b [] = []"
| "replaceFirst a b (c # cs) = (if c = a then b # cs else c # replaceFirst a b cs)"

text \<open>\<^verbatim>\<open>s.includes(t)\<close>: \<open>t\<close> occurs in \<open>s\<close> as a contiguous substring.\<close>

fun includes_str :: "string \<Rightarrow> string \<Rightarrow> bool" where
  "includes_str [] t = (t = [])"
| "includes_str (c # cs) t = (take (length t) (c # cs) = t \<or> includes_str cs t)"

text \<open>The decimal rendering of a status code inside a template literal.\<close>

fun string_of_nat :: "nat \<Rightarrow> string" where
  "string_of_nat n =
     (if n < 10 then [''0123456789'' ! n]
      else string_of_nat (n div 10) @ [''0123456789'' ! (n mod 10)])"

declare string_of_nat.simps [simp del]

text \<open>
  \<^verbatim>\<open>parseFloat\<close>: leading white space is skipped, then the longest prefix that is a
  \<^verbatim>\<open>StrDecimalLiteral\<close> (sign, \<^verbatim>\<open>Infinity\<close>, or digits with an optional fraction and an
  optional exponent) is read; whatever follows is ignored. With no such prefix the result
  is \<^verbatim>\<open>NaN\<close>; otherwise it is the double nearest to the decimal value read.
\<close>

definition exponentPart :: "string \<Rightarrow> int" where
  "exponentPart r =
     (case r of
        [] \<Rightarrow> 0
      | c # r' \<Rightarrow>
          if c = CHR ''e'' \<or> c = CHR ''E'' then
            (case r' of
               [] \<Rightarrow> 0
             | d # r'' \<Rightarrow>
                 if d = CHR ''-'' then - int (digitsVal (takeWhile isDigit r''))
                 else if d = CHR ''+'' then int (digitsVal (takeWhile isDigit r''))
                 else int (digitsVal (takeWhile isDigit r')))
          else 0)"

definition scale10 :: "rat \<Rightarrow> int \<Rightarrow> rat" where
  "scale10 m e = (if 0 \<le> e then m * 10 ^ nat e else m / 10 ^ nat (- e))"

definition parseFloat :: "string \<Rightarrow> jsnum" where
  "parseFloat s =
     (let t = dropWhile isWhiteSpace s;
          neg = (case t of [] \<Rightarrow> False | c # _ \<Rightarrow> c = CHR ''-'');
          u = (case t of [] \<Rightarrow> [] | c # r \<Rightarrow> if c = CHR ''+'' \<or> c = CHR ''-'' then r else t)
      in if take 8 u = ''Infinity'' then (if neg then NInf else PInf)
         else
           let ip = takeWhile isDigit u;
               r1 = dropWhile isDigit u;
               fp = (case r1 of [] \<Rightarrow> []
                     | c # r \<Rightarrow> if c = CHR ''.'' then takeWhile isDigit r else []);
               r2 = (case r1 of [] \<Rightarrow> []
                     | c # r \<Rightarrow> if c = CHR ''.'' then dropWhile isDigit r else r1)
           in if ip = [] \<and> fp = [] then NaN
              else
                let v = scale10 (of_nat (digitsVal (ip @ fp)) / 10 ^ length fp) (exponentPart r2)
                in round_double (if neg then - v else v))"

section \<open>Payments: the records and the mapping of a raw record\<close>

text \<open>\<^verbatim>\<open>ApiPayment\<close>, the record of a payment as the API sends it.\<close>

record api_payment =
  api_id :: string
  api_year :: int
  api_series :: int
  api_invoice_id :: string
  api_client_email :: string
  api_amount :: string
  api_method :: string
  api_status :: string
  api_date :: string
  api_created_at :: string
  api_updated_at :: string

text \<open>
  \<^verbatim>\<open>Payment\<close>, the record the payment screen works on. The status is declared as one of four
  literals, but the mapping casts an arbitrary lower-cased string to it unchecked, so at run
  time it is a string.
\<close>

record payment =
  payment_id :: string
  transactionId :: string
  invoiceNumber :: string
  clientName :: string
  payment_amount :: jsnum
  paymentMethod :: string
  payment_status :: string
  paidAt :: string
  reference :: string

text \<open>
  What the browser supplies: the token kept in local storage (\<^verbatim>\<open>null\<close> when absent), the
  locale's rendering of a date, \<^verbatim>\<open>new Date(s).toISOString()\<close> (\<open>None\<close> when it throws a
  \<^verbatim>\<open>RangeError\<close> on an invalid date) and the current instant.
\<close>

record host =
  token :: "string option"
  toLocaleDateString :: "string \<Rightarrow> string"
  toISOString :: "string \<Rightarrow> string option"
  now :: string

text \<open>
  The body of \<^verbatim>\<open>result.data.map\<close> in \<^verbatim>\<open>fetchPayments\<close>. Any field of the raw record
  beyond those of \<^verbatim>\<open>ApiPayment\<close> (the extension of the record) is not looked at.
\<close>

definition mapPayment :: "host \<Rightarrow> 'a api_payment_scheme \<Rightarrow> payment" where
  "mapPayment h item =
     \<lparr> payment_id = api_id item,
       transactionId = api_id item,
       invoiceNumber = api_invoice_id item,
       clientName = api_client_email item,
       payment_amount = parseFloat (api_amount item),
       paymentMethod = replaceFirst (CHR ''_'') (CHR '' '') (toLowerCase (api_method item)),
       payment_status = toLowerCase (api_status item),
       paidAt = toLocaleDateString h (api_date item),
       reference = [] \<rparr>"

text \<open>The view modal shows \<^verbatim>\<open>selectedPayment.reference || 'N/A'\<close>.\<close>

definition referenceDisplay :: "payment \<Rightarrow> string" where
  "referenceDisplay p = (if reference p = [] then ''N/A'' else reference p)"

section \<open>Requests and responses\<close>

datatype http_method = GET | POST | PATCH | DELETE

datatype jsonv = JStr string | JNum jsnum

text \<open>
  A call of \<^verbatim>\<open>fetch\<close>: the path is relative to \<^verbatim>\<open>API_URL\<close>, the body is the payload object
  before \<^verbatim>\<open>JSON.stringify\<close>, and of the headers only \<^verbatim>\<open>Authorization\<close> is kept.
\<close>

record request =
  req_method :: http_method
  req_path :: string
  req_query :: "(string \<times> string) list"
  req_authorization :: string
  req_body :: "(string \<times> jsonv) list"

text \<open>The template literal \<^verbatim>\<open>`Bearer ${token}`\<close>: a \<^verbatim>\<open>null\<close> token is rendered as \<^verbatim>\<open>null\<close>.\<close>

definition bearer :: "string option \<Rightarrow> string" where
  "bearer t = ''Bearer '' @ (case t of None \<Rightarrow> ''null'' | Some s \<Rightarrow> s)"

text \<open>\<^verbatim>\<open>!token\<close>: the token is \<^verbatim>\<open>null\<close> or the empty string.\<close>

definition falsy :: "string option \<Rightarrow> bool" where
  "falsy t = (case t of None \<Rightarrow> True | Some s \<Rightarrow> s = [])"

text \<open>
  What \<^verbatim>\<open>response.json()\<close> gives: a rejection with the parser's message, or an object of
  which the handlers read the fields \<^verbatim>\<open>message\<close> and \<^verbatim>\<open>data\<close> (\<open>None\<close> when absent).
\<close>

datatype 'd json = NotJson string | Json "string option" "'d option"

record 'd response =
  status :: nat
  statusText :: string
  json :: "'d json"

text \<open>What \<^verbatim>\<open>await fetch(...)\<close> gives: a rejection with its message, or a response.\<close>

datatype 'd outcome = Rejected string | Resolved "'d response"

definition ok :: "'d response \<Rightarrow> bool" where
  "ok r = (200 \<le> status r \<and> status r \<le> 299)"

text \<open>\<^verbatim>\<open>m || d\<close> on an optional string.\<close>

definition orElse :: "string option \<Rightarrow> string \<Rightarrow> string" where
  "orElse m d = (case m of None \<Rightarrow> d | Some s \<Rightarrow> if s = [] then d else s)"

text \<open>The message of the \<^verbatim>\<open>TypeError\<close> of \<^verbatim>\<open>undefined.map\<close> (the text is the engine's).\<close>

definition undefinedMapMessage :: string where
  "undefinedMapMessage = ''Cannot read properties of undefined (reading 'map')''"

section \<open>Payments: the state of the screen\<close>

record new_payment =
  np_invoiceId :: string
  np_clientEmail :: string
  np_amount :: string
  np_method :: string
  np_status :: string
  np_reference :: string
  np_date :: string

record pstate =
  payments :: "payment list"
  loading :: bool
  error :: "string option"
  searchTerm :: string
  statusFilter :: string
  methodFilter :: string
  showCreateModal :: bool
  showViewModal :: bool
  showUpdateModal :: bool
  showDeleteModal :: bool
  selectedPayment :: "payment option"
  editingPayment :: "payment option"
  isSubmitting :: bool
  submitError :: "string option"
  newPayment :: new_payment

text \<open>
  A handler is embedded as the sequence of its effects, in program order: one event per
  call of a state setter, and one per call of \<^verbatim>\<open>fetch\<close>. The state after the handler is
  the state before it with the events applied from left to right.
\<close>

datatype pevent =
    SetPayments "payment list"
  | SetLoading bool
  | SetError "string option"
  | SetShowCreateModal bool
  | SetShowUpdateModal bool
  | SetShowDeleteModal bool
  | SetSelectedPayment "payment option"
  | SetEditingPayment "payment option"
  | SetIsSubmitting bool
  | SetSubmitError "string option"
  | SetNewPayment new_payment
  | Fetch request

fun applyP :: "pstate \<Rightarrow> pevent \<Rightarrow> pstate" where
  "applyP st (SetPayments v) = st\<lparr>payments := v\<rparr>"
| "applyP st (SetLoading v) = st\<lparr>loading := v\<rparr>"
| "applyP st (SetError v) = st\<lparr>error := v\<rparr>"
| "applyP st (SetShowCreateModal v) = st\<lparr>showCreateModal := v\<rparr>"
| "applyP st (SetShowUpdateModal v) = st\<lparr>showUpdateModal := v\<rparr>"
| "applyP st (SetShowDeleteModal v) = st\<lparr>showDeleteModal := v\<rparr>"
| "applyP st (SetSelectedPayment v) = st\<lparr>selectedPayment := v\<rparr>"
| "applyP st (SetEditingPayment v) = st\<lparr>editingPayment := v\<rparr>"
| "applyP st (SetIsSubmitting v) = st\<lparr>isSubmitting := v\<rparr>"
| "applyP st (SetSubmitError v) = st\<lparr>submitError := v\<rparr>"
| "applyP st (SetNewPayment v) = st\<lparr>newPayment := v\<rparr>"
| "applyP st (Fetch _) = st"

definition runP :: "pstate \<Rightarrow> pevent list \<Rightarrow> pstate" where
  "runP st es = foldl applyP st es"

text \<open>The requests among the events of a handler, in the order they are issued.\<close>

fun requestsP :: "pevent list \<Rightarrow> request list" where
  "requestsP [] = []"
| "requestsP (Fetch q # es) = q # requestsP es"
| "requestsP (_ # es) = requestsP es"

section \<open>Payments: the filtered collection and its summary figures\<close>

definition matchesPayment :: "pstate \<Rightarrow> payment \<Rightarrow> bool" where
  "matchesPayment st p =
     (let matchesSearch =
            (includes_str (toLowerCase (clientName p)) (toLowerCase (searchTerm st)) \<or>
             includes_str (toLowerCase (transactionId p)) (toLowerCase (searchTerm st)) \<or>
             includes_str (toLowerCase (invoiceNumber p)) (toLowerCase (searchTerm st)));
          matchesStatus = (statusFilter st = ''all'' \<or> payment_status p = statusFilter st);
          matchesMethod =
            (methodFilter st = ''all'' \<or>
             replaceFirst (CHR '' '') (CHR ''_'') (paymentMethod p) =
               replaceFirst (CHR '' '') (CHR ''_'') (methodFilter st))
      in matchesSearch \<and> matchesStatus \<and> matchesMethod)"

definition filteredPayments :: "pstate \<Rightarrow> payment list" where
  "filteredPayments st = filter (matchesPayment st) (payments st)"

text \<open>\<^verbatim>\<open>xs.reduce((sum, payment) => sum + payment.amount, 0)\<close>.\<close>

definition sumAmounts :: "payment list \<Rightarrow> jsnum" where
  "sumAmounts ps = foldl (\<lambda>sum p. js_add sum (payment_amount p)) (Fin 0) ps"

definition totalAmount :: "pstate \<Rightarrow> jsnum" where
  "totalAmount st = sumAmounts (filteredPayments st)"

text \<open>
  The pattern of \<^verbatim>\<open>completedAmount\<close> and \<^verbatim>\<open>pendingAmount\<close>: the filtered collection,
  filtered again by one status, then summed.
\<close>

definition amountByStatus :: "string \<Rightarrow> pstate \<Rightarrow> jsnum" where
  "amountByStatus s st =
     sumAmounts (filter (\<lambda>p. payment_status p = s) (filteredPayments st))"

definition completedAmount :: "pstate \<Rightarrow> jsnum" where
  "completedAmount st = amountByStatus ''completed'' st"

definition pendingAmount :: "pstate \<Rightarrow> jsnum" where
  "pendingAmount st = amountByStatus ''pending'' st"

section \<open>Payments: the list fetch and the three mutations\<close>

text \<open>
  An \<^verbatim>\<open>async\<close> handler runs in two parts: what it does up to its \<^verbatim>\<open>await fetch\<close>
  (\<open>_sync\<close>), and what it does once the outcome of the request is known (\<open>_cont\<close>). The
  network is a function from the request to its outcome.
\<close>

definition paymentsListRequest :: "host \<Rightarrow> request" where
  "paymentsListRequest h =
     \<lparr> req_method = GET, req_path = ''/payments'', req_query = [],
       req_authorization = bearer (token h), req_body = [] \<rparr>"

definition fetchPayments_sync :: "host \<Rightarrow> pevent list" where
  "fetchPayments_sync h = [SetLoading True, SetError None, Fetch (paymentsListRequest h)]"

definition fetchPayments_cont :: "host \<Rightarrow> ('a api_payment_scheme list) outcome \<Rightarrow> pevent list" where
  "fetchPayments_cont h out =
     (case out of
        Rejected msg \<Rightarrow> [SetError (Some msg)]
      | Resolved r \<Rightarrow>
          if \<not> ok r then [SetError (Some (''HTTP error! status: '' @ string_of_nat (status r)))]
          else
            (case json r of
               NotJson msg \<Rightarrow> [SetError (Some msg)]
             | Json _ None \<Rightarrow> [SetError (Some undefinedMapMessage)]
             | Json _ (Some d) \<Rightarrow> [SetPayments (map (mapPayment h) d)]))
     @ [SetLoading False]"

definition fetchPayments ::
  "host \<Rightarrow> (request \<Rightarrow> ('a api_payment_scheme list) outcome) \<Rightarrow> pevent list" where
  "fetchPayments h net = fetchPayments_sync h @ fetchPayments_cont h (net (paymentsListRequest h))"

text \<open>
  The three mutations of the payment screen turn a failed request into an error in the same
  way: the message of the rejection, or for a status outside 200..299 the \<^verbatim>\<open>message\<close>
  of the body (\<^verbatim>\<open>errorData.message || 'An unknown error occurred.'\<close>), or the message of the
  parser when the body is not JSON. \<open>None\<close> when the response is a success.
\<close>

definition paymentFailure :: "'d outcome \<Rightarrow> string option" where
  "paymentFailure out =
     (case out of
        Rejected msg \<Rightarrow> Some msg
      | Resolved r \<Rightarrow>
          if \<not> ok r then
            (case json r of
               NotJson msg \<Rightarrow> Some msg
             | Json m _ \<Rightarrow> Some (orElse m ''An unknown error occurred.''))
          else None)"

definition createPaymentRequest :: "host \<Rightarrow> pstate \<Rightarrow> string \<Rightarrow> request" where
  "createPaymentRequest h st formattedPaymentDate =
     \<lparr> req_method = POST, req_path = ''/payments'', req_query = [],
       req_authorization = bearer (token h),
       req_body =
         [(''invoiceId'', JStr (np_invoiceId (newPayment st))),
          (''amount'', JNum (parseFloat (np_amount (newPayment st)))),
          (''method'', JStr (np_method (newPayment st))),
          (''status'', JStr (np_status (newPayment st))),
          (''date'', JStr formattedPaymentDate),
          (''clientEmail'', JStr (np_clientEmail (newPayment st))),
          (''reference'', JStr (np_reference (newPayment st)))] \<rparr>"

definition resetNewPayment :: new_payment where
  "resetNewPayment =
     \<lparr> np_invoiceId = [], np_clientEmail = [], np_amount = [], np_method = ''BANK_TRANSFER'',
       np_status = ''COMPLETED'', np_reference = [], np_date = [] \<rparr>"

text \<open>
  \<^verbatim>\<open>handleCreatePayment\<close>. The date is converted before the \<^verbatim>\<open>try\<close>: on an invalid date the
  \<^verbatim>\<open>RangeError\<close> leaves the handler after its first two setters, and no request is made.
\<close>

definition handleCreatePayment_sync :: "host \<Rightarrow> pstate \<Rightarrow> pevent list" where
  "handleCreatePayment_sync h st =
     [SetIsSubmitting True, SetSubmitError None] @
     (case toISOString h (np_date (newPayment st)) of
        None \<Rightarrow> []
      | Some d \<Rightarrow> [Fetch (createPaymentRequest h st d)])"

definition handleCreatePayment_cont ::
  "host \<Rightarrow> (request \<Rightarrow> ('a api_payment_scheme list) outcome) \<Rightarrow>
   ('a api_payment_scheme list) outcome \<Rightarrow> pevent list" where
  "handleCreatePayment_cont h net out =
     (case paymentFailure out of
        Some msg \<Rightarrow> [SetSubmitError (Some msg)]
      | None \<Rightarrow> [SetShowCreateModal False, SetNewPayment resetNewPayment] @ fetchPayments h net)
     @ [SetIsSubmitting False]"

definition handleCreatePayment ::
  "host \<Rightarrow> (request \<Rightarrow> ('a api_payment_scheme list) outcome) \<Rightarrow> pstate \<Rightarrow> pevent list" where
  "handleCreatePayment h net st =
     handleCreatePayment_sync h st @
     (case toISOString h (np_date (newPayment st)) of
        None \<Rightarrow> []
      | Some d \<Rightarrow> handleCreatePayment_cont h net (net (createPaymentRequest h st d)))"

definition updatePaymentRequest :: "host \<Rightarrow> payment \<Rightarrow> request" where
  "updatePaymentRequest h ep =
     \<lparr> req_method = PATCH, req_path = ''/payments/'' @ payment_id ep, req_query = [],
       req_authorization = bearer (token h),
       req_body =
         [(''status'', JStr (toUpperCase (payment_status ep))),
          (''reference'', JStr (reference ep))] \<rparr>"

definition handleUpdatePayment_sync :: "host \<Rightarrow> pstate \<Rightarrow> pevent list" where
  "handleUpdatePayment_sync h st =
     (case editingPayment st of
        None \<Rightarrow> []
      | Some ep \<Rightarrow> [SetIsSubmitting True, SetSubmitError None, Fetch (updatePaymentRequest h ep)])"

definition handleUpdatePayment_cont ::
  "host \<Rightarrow> (request \<Rightarrow> ('a api_payment_scheme list) outcome) \<Rightarrow>
   ('a api_payment_scheme list) outcome \<Rightarrow> pevent list" where
  "handleUpdatePayment_cont h net out =
     (case paymentFailure out of
        Some msg \<Rightarrow> [SetSubmitError (Some msg)]
      | None \<Rightarrow> [SetShowUpdateModal False, SetEditingPayment None] @ fetchPayments h net)
     @ [SetIsSubmitting False]"

definition handleUpdatePayment ::
  "host \<Rightarrow> (request \<Rightarrow> ('a api_payment_scheme list) outcome) \<Rightarrow> pstate \<Rightarrow> pevent list" where
  "handleUpdatePayment h net st =
     handleUpdatePayment_sync h st @
     (case editingPayment st of
        None \<Rightarrow> []
      | Some ep \<Rightarrow> handleUpdatePayment_cont h net (net (updatePaymentRequest h ep)))"

definition deletePaymentRequest :: "host \<Rightarrow> payment \<Rightarrow> request" where
  "deletePaymentRequest h sp =
     \<lparr> req_method = DELETE, req_path = ''/payments/'' @ payment_id sp, req_query = [],
       req_authorization = bearer (token h), req_body = [] \<rparr>"

definition handleDeletePayment_sync :: "host \<Rightarrow> pstate \<Rightarrow> pevent list" where
  "handleDeletePayment_sync h st =
     (case selectedPayment st of
        None \<Rightarrow> []
      | Some sp \<Rightarrow> [SetIsSubmitting True, SetSubmitError None, Fetch (deletePaymentRequest h sp)])"

definition handleDeletePayment_cont ::
  "host \<Rightarrow> (request \<Rightarrow> ('a api_payment_scheme list) outcome) \<Rightarrow>
   ('a api_payment_scheme list) outcome \<Rightarrow> pevent list" where
  "handleDeletePayment_cont h net out =
     (case paymentFailure out of
        Some msg \<Rightarrow> [SetSubmitError (Some msg)]
      | None \<Rightarrow> [SetShowDeleteModal False, SetSelectedPayment None] @ fetchPayments h net)
     @ [SetIsSubmitting False]"

definition handleDeletePayment ::
  "host \<Rightarrow> (request \<Rightarrow> ('a api_payment_scheme list) outcome) \<Rightarrow> pstate \<Rightarrow> pevent list" where
  "handleDeletePayment h net st =
     handleDeletePayment_sync h st @
     (case selectedPayment st of
        None \<Rightarrow> []
      | Some sp \<Rightarrow> handleDeletePayment_cont h net (net (deletePaymentRequest h sp)))"

text \<open>
  The submit buttons of the three modals. A modal is rendered only while its flag is set (and,
  for update and delete, a payment is selected); its submit button carries
  \<^verbatim>\<open>disabled={isSubmitting}\<close>, and a disabled button delivers no click.
\<close>

definition clickRecordPayment :: "host \<Rightarrow> pstate \<Rightarrow> pevent list" where
  "clickRecordPayment h st =
     (if showCreateModal st \<and> \<not> isSubmitting st then handleCreatePayment_sync h st else [])"

definition clickUpdatePayment :: "host \<Rightarrow> pstate \<Rightarrow> pevent list" where
  "clickUpdatePayment h st =
     (if showUpdateModal st \<and> editingPayment st \<noteq> None \<and> \<not> isSubmitting st
      then handleUpdatePayment_sync h st else [])"

definition clickDeletePayment :: "host \<Rightarrow> pstate \<Rightarrow> pevent list" where
  "clickDeletePayment h st =
     (if showDeleteModal st \<and> selectedPayment st \<noteq> None \<and> \<not> isSubmitting st
      then handleDeletePayment_sync h st else [])"

section \<open>Users: the state of the screen, the list fetch and the three mutations\<close>

record user =
  user_id :: nat
  user_email :: string
  user_name :: string
  user_role :: string
  user_created_at :: string
  user_updated_at :: string

text \<open>
  The collection is \<open>None\<close> when the setter was handed \<^verbatim>\<open>undefined\<close> (a success body without
  \<^verbatim>\<open>data\<close>).
\<close>

record ustate =
  users :: "user list option"
  isLoading :: bool
  u_error :: "string option"
  newUserName :: string
  newUserEmail :: string
  newUserPassword :: string
  newUserRole :: string
  isAddingUser :: bool
  addUserError :: "string option"
  showPassword :: bool
  showEditModal :: bool
  editingUser :: "user option"
  editUserName :: string
  editUserEmail :: string
  editUserRole :: string
  editUserPassword :: string
  isUpdatingUser :: bool
  updateUserError :: "string option"
  u_showDeleteModal :: bool
  userToDelete :: "user option"
  isDeleting :: bool
  deleteError :: "string option"
  u_searchTerm :: string
  roleFilter :: string
  u_showCreateModal :: bool

datatype uevent =
    SetUsers "user list option"
  | SetIsLoading bool
  | USetError "string option"
  | SetNewUserName string
  | SetNewUserEmail string
  | SetNewUserPassword string
  | SetNewUserRole string
  | SetIsAddingUser bool
  | SetAddUserError "string option"
  | SetShowEditModal bool
  | SetEditingUser "user option"
  | SetEditUserName string
  | SetEditUserEmail string
  | SetEditUserRole string
  | SetIsUpdatingUser bool
  | SetUpdateUserError "string option"
  | USetShowDeleteModal bool
  | SetUserToDelete "user option"
  | SetIsDeleting bool
  | SetDeleteError "string option"
  | USetShowCreateModal bool
  | UFetch request

fun applyU :: "ustate \<Rightarrow> uevent \<Rightarrow> ustate" where
  "applyU st (SetUsers v) = st\<lparr>users := v\<rparr>"
| "applyU st (SetIsLoading v) = st\<lparr>isLoading := v\<rparr>"
| "applyU st (USetError v) = st\<lparr>u_error := v\<rparr>"
| "applyU st (SetNewUserName v) = st\<lparr>newUserName := v\<rparr>"
| "applyU st (SetNewUserEmail v) = st\<lparr>newUserEmail := v\<rparr>"
| "applyU st (SetNewUserPassword v) = st\<lparr>newUserPassword := v\<rparr>"
| "applyU st (SetNewUserRole v) = st\<lparr>newUserRole := v\<rparr>"
| "applyU st (SetIsAddingUser v) = st\<lparr>isAddingUser := v\<rparr>"
| "applyU st (SetAddUserError v) = st\<lparr>addUserError := v\<rparr>"
| "applyU st (SetShowEditModal v) = st\<lparr>showEditModal := v\<rparr>"
| "applyU st (SetEditingUser v) = st\<lparr>editingUser := v\<rparr>"
| "applyU st (SetEditUserName v) = st\<lparr>editUserName := v\<rparr>"
| "applyU st (SetEditUserEmail v) = st\<lparr>editUserEmail := v\<rparr>"
| "applyU st (SetEditUserRole v) = st\<lparr>editUserRole := v\<rparr>"
| "applyU st (SetIsUpdatingUser v) = st\<lparr>isUpdatingUser := v\<rparr>"
| "applyU st (SetUpdateUserError v) = st\<lparr>updateUserError := v\<rparr>"
| "applyU st (USetShowDeleteModal v) = st\<lparr>u_showDeleteModal := v\<rparr>"
| "applyU st (SetUserToDelete v) = st\<lparr>userToDelete := v\<rparr>"
| "applyU st (SetIsDeleting v) = st\<lparr>isDeleting := v\<rparr>"
| "applyU st (SetDeleteError v) = st\<lparr>deleteError := v\<rparr>"
| "applyU st (USetShowCreateModal v) = st\<lparr>u_showCreateModal := v\<rparr>"
| "applyU st (UFetch _) = st"

definition runU :: "ustate \<Rightarrow> uevent list \<Rightarrow> ustate" where
  "runU st es = foldl applyU st es"

fun requestsU :: "uevent list \<Rightarrow> request list" where
  "requestsU [] = []"
| "requestsU (UFetch q # es) = q # requestsU es"
| "requestsU (_ # es) = requestsU es"

text \<open>\<^verbatim>\<open>fetchUsers\<close>: the search term of the render that created the handler goes into the query.\<close>

definition usersListRequest :: "host \<Rightarrow> ustate \<Rightarrow> request" where
  "usersListRequest h st =
     \<lparr> req_method = GET, req_path = ''/users'',
       req_query = (if u_searchTerm st \<noteq> [] then [(''q'', u_searchTerm st)] else []),
       req_authorization = bearer (token h), req_body = [] \<rparr>"

definition fetchUsers_sync :: "host \<Rightarrow> ustate \<Rightarrow> uevent list" where
  "fetchUsers_sync h st = [SetIsLoading True, USetError None, UFetch (usersListRequest h st)]"

definition fetchUsers_cont :: "(user list) outcome \<Rightarrow> uevent list" where
  "fetchUsers_cont out =
     (case out of
        Rejected msg \<Rightarrow> [USetError (Some msg), SetUsers (Some [])]
      | Resolved r \<Rightarrow>
          if \<not> ok r then
            [USetError (Some (''HTTP error! status: '' @ string_of_nat (status r))),
             SetUsers (Some [])]
          else
            (case json r of
               NotJson msg \<Rightarrow> [USetError (Some msg), SetUsers (Some [])]
             | Json _ d \<Rightarrow> [SetUsers d]))
     @ [SetIsLoading False]"

definition fetchUsers :: "host \<Rightarrow> (request \<Rightarrow> (user list) outcome) \<Rightarrow> ustate \<Rightarrow> uevent list" where
  "fetchUsers h net st = fetchUsers_sync h st @ fetchUsers_cont (net (usersListRequest h st))"

text \<open>
  The user mutations never read the body of a failed response: the error is the message of
  the rejection, or the handler's own text followed by the status code.
\<close>

definition userFailure :: "string \<Rightarrow> 'd outcome \<Rightarrow> string option" where
  "userFailure what out =
     (case out of
        Rejected msg \<Rightarrow> Some msg
      | Resolved r \<Rightarrow>
          if \<not> ok r then Some (what @ string_of_nat (status r)) else None)"

definition addUserRequest :: "host \<Rightarrow> ustate \<Rightarrow> request" where
  "addUserRequest h st =
     \<lparr> req_method = POST, req_path = ''/users'', req_query = [],
       req_authorization = bearer (token h),
       req_body =
         [(''name'', JStr (newUserName st)), (''email'', JStr (newUserEmail st)),
          (''password'', JStr (newUserPassword st)), (''role'', JStr (newUserRole st))] \<rparr>"

definition handleAddUser_sync :: "host \<Rightarrow> ustate \<Rightarrow> uevent list" where
  "handleAddUser_sync h st =
     [SetIsAddingUser True, SetAddUserError None, UFetch (addUserRequest h st)]"

text \<open>
  On success \<^verbatim>\<open>fetchUsers()\<close> is called without \<^verbatim>\<open>await\<close>: its part up to the request runs
  at once, the rest of the handler follows, and the part after the list response comes last.
\<close>

definition handleAddUser_cont ::
  "host \<Rightarrow> (request \<Rightarrow> (user list) outcome) \<Rightarrow> ustate \<Rightarrow> (user list) outcome \<Rightarrow> uevent list" where
  "handleAddUser_cont h net st out =
     (case userFailure ''Failed to add user! Status: '' out of
        Some msg \<Rightarrow> [SetAddUserError (Some msg), SetIsAddingUser False]
      | None \<Rightarrow>
          fetchUsers_sync h st @
          [SetNewUserName [], SetNewUserEmail [], SetNewUserPassword [],
           SetNewUserRole ''accountant'', USetShowCreateModal False, SetIsAddingUser False] @
          fetchUsers_cont (net (usersListRequest h st)))"

definition handleAddUser :: "host \<Rightarrow> (request \<Rightarrow> (user list) outcome) \<Rightarrow> ustate \<Rightarrow> uevent list" where
  "handleAddUser h net st =
     handleAddUser_sync h st @ handleAddUser_cont h net st (net (addUserRequest h st))"

definition updateUserRequest :: "host \<Rightarrow> ustate \<Rightarrow> user \<Rightarrow> request" where
  "updateUserRequest h st eu =
     \<lparr> req_method = PATCH, req_path = ''/users/'' @ string_of_nat (user_id eu), req_query = [],
       req_authorization = bearer (token h),
       req_body =
         [(''name'', JStr (editUserName st)), (''email'', JStr (editUserEmail st)),
          (''role'', JStr (editUserRole st))] @
         (if editUserPassword st \<noteq> [] then [(''password'', JStr (editUserPassword st))] else []) \<rparr>"

definition handleUpdateUser_sync :: "host \<Rightarrow> ustate \<Rightarrow> uevent list" where
  "handleUpdateUser_sync h st =
     (case editingUser st of
        None \<Rightarrow> []
      | Some eu \<Rightarrow>
          [SetIsUpdatingUser True, SetUpdateUserError None, UFetch (updateUserRequest h st eu)])"

definition handleUpdateUser_cont ::
  "host \<Rightarrow> (request \<Rightarrow> (user list) outcome) \<Rightarrow> ustate \<Rightarrow> (user list) outcome \<Rightarrow> uevent list" where
  "handleUpdateUser_cont h net st out =
     (case userFailure ''Failed to update user! Status: '' out of
        Some msg \<Rightarrow> [SetUpdateUserError (Some msg), SetIsUpdatingUser False]
      | None \<Rightarrow>
          fetchUsers_sync h st @
          [SetEditingUser None, SetEditUserName [], SetEditUserEmail [],
           SetEditUserRole ''accountant'', SetShowEditModal False, SetIsUpdatingUser False] @
          fetchUsers_cont (net (usersListRequest h st)))"

definition handleUpdateUser :: "host \<Rightarrow> (request \<Rightarrow> (user list) outcome) \<Rightarrow> ustate \<Rightarrow> uevent list" where
  "handleUpdateUser h net st =
     handleUpdateUser_sync h st @
     (case editingUser st of
        None \<Rightarrow> []
      | Some eu \<Rightarrow> handleUpdateUser_cont h net st (net (updateUserRequest h st eu)))"

definition deleteUserRequest :: "host \<Rightarrow> user \<Rightarrow> request" where
  "deleteUserRequest h ud =
     \<lparr> req_method = DELETE, req_path = ''/users/'' @ string_of_nat (user_id ud), req_query = [],
       req_authorization = bearer (token h), req_body = [] \<rparr>"

definition handleDeleteUser_sync :: "host \<Rightarrow> ustate \<Rightarrow> uevent list" where
  "handleDeleteUser_sync h st =
     (case userToDelete st of
        None \<Rightarrow> []
      | Some ud \<Rightarrow> [SetIsDeleting True, SetDeleteError None, UFetch (deleteUserRequest h ud)])"

definition handleDeleteUser_cont ::
  "host \<Rightarrow> (request \<Rightarrow> (user list) outcome) \<Rightarrow> ustate \<Rightarrow> (user list) outcome \<Rightarrow> uevent list" where
  "handleDeleteUser_cont h net st out =
     (case userFailure ''Failed to delete user! Status: '' out of
        Some msg \<Rightarrow> [SetDeleteError (Some msg), SetIsDeleting False]
      | None \<Rightarrow>
          fetchUsers_sync h st @
          [SetUserToDelete None, USetShowDeleteModal False, SetIsDeleting False] @
          fetchUsers_cont (net (usersListRequest h st)))"

definition handleDeleteUser :: "host \<Rightarrow> (request \<Rightarrow> (user list) outcome) \<Rightarrow> ustate \<Rightarrow> uevent list" where
  "handleDeleteUser h net st =
     handleDeleteUser_sync h st @
     (case userToDelete st of
        None \<Rightarrow> []
      | Some ud \<Rightarrow> handleDeleteUser_cont h net st (net (deleteUserRequest h ud)))"

text \<open>The submit buttons of the user modals: each is disabled by the flag of its own action.\<close>

definition clickAddUser :: "host \<Rightarrow> ustate \<Rightarrow> uevent list" where
  "clickAddUser h st =
     (if u_showCreateModal st \<and> \<not> isAddingUser st then handleAddUser_sync h st else [])"

definition clickUpdateUser :: "host \<Rightarrow> ustate \<Rightarrow> uevent list" where
  "clickUpdateUser h st =
     (if showEditModal st \<and> editingUser st \<noteq> None \<and> \<not> isUpdatingUser st
      then handleUpdateUser_sync h st else [])"

definition clickDeleteUser :: "host \<Rightarrow> ustate \<Rightarrow> uevent list" where
  "clickDeleteUser h st =
     (if u_showDeleteModal st \<and> userToDelete st \<noteq> None \<and> \<not> isDeleting st
      then handleDeleteUser_sync h st else [])"

section \<open>Invoices: the page, the create/edit modal and the confirmation of a deletion\<close>

record invoice =
  inv_id :: string
  inv_year :: int
  inv_series :: int
  inv_client_email :: string
  inv_client_phone :: string
  inv_amount :: string
  inv_status :: string
  inv_date :: string
  inv_due_date :: string
  inv_description :: "string option"
  inv_customer_id :: "int option"
  inv_created_at :: string
  inv_updated_at :: string

datatype toast_type = ToastSuccess | ToastError | ToastDeletion

text \<open>
  The state of \<^verbatim>\<open>InvoiceManagement\<close>. \<open>confirmAction\<close> holds the invoice that the stored
  closure deletes (\<open>None\<close> for the initial empty closure).
\<close>

record istate =
  invoices :: "invoice list option"
  i_searchTerm :: string
  i_statusFilter :: string
  showModal :: bool
  editingInvoice :: "invoice option"
  viewingInvoice :: "invoice option"
  showConfirmModal :: bool
  confirmAction :: "invoice option"
  i_loading :: bool
  i_error :: "string option"
  toastMessage :: "string option"
  toastType :: toast_type

text \<open>The state of \<^verbatim>\<open>InvoiceModal\<close>, the form of the create/edit modal.\<close>

record mstate =
  clientEmail :: string
  clientPhone :: string
  amount :: string
  dueDate :: string
  description :: string
  m_loading :: bool
  m_error :: "string option"

datatype ievent =
    SetInvoices "invoice list option"
  | ISetLoading bool
  | ISetError "string option"
  | SetShowModal bool
  | SetEditingInvoice "invoice option"
  | SetShowConfirmModal bool
  | SetConfirmAction "invoice option"
  | SetToastMessage "string option"
  | SetToastType toast_type
  | MSetLoading bool
  | MSetError "string option"
  | IFetch request

text \<open>The page takes the setters of the page, the modal those of the modal.\<close>

fun applyI :: "istate \<Rightarrow> ievent \<Rightarrow> istate" where
  "applyI st (SetInvoices v) = st\<lparr>invoices := v\<rparr>"
| "applyI st (ISetLoading v) = st\<lparr>i_loading := v\<rparr>"
| "applyI st (ISetError v) = st\<lparr>i_error := v\<rparr>"
| "applyI st (SetShowModal v) = st\<lparr>showModal := v\<rparr>"
| "applyI st (SetEditingInvoice v) = st\<lparr>editingInvoice := v\<rparr>"
| "applyI st (SetShowConfirmModal v) = st\<lparr>showConfirmModal := v\<rparr>"
| "applyI st (SetConfirmAction v) = st\<lparr>confirmAction := v\<rparr>"
| "applyI st (SetToastMessage v) = st\<lparr>toastMessage := v\<rparr>"
| "applyI st (SetToastType v) = st\<lparr>toastType := v\<rparr>"
| "applyI st (MSetLoading _) = st"
| "applyI st (MSetError _) = st"
| "applyI st (IFetch _) = st"

fun applyM :: "mstate \<Rightarrow> ievent \<Rightarrow> mstate" where
  "applyM m (MSetLoading v) = m\<lparr>m_loading := v\<rparr>"
| "applyM m (MSetError v) = m\<lparr>m_error := v\<rparr>"
| "applyM m _ = m"

definition runI :: "istate \<Rightarrow> ievent list \<Rightarrow> istate" where
  "runI st es = foldl applyI st es"

definition runM :: "mstate \<Rightarrow> ievent list \<Rightarrow> mstate" where
  "runM m es = foldl applyM m es"

fun requestsI :: "ievent list \<Rightarrow> request list" where
  "requestsI [] = []"
| "requestsI (IFetch q # es) = q # requestsI es"
| "requestsI (_ # es) = requestsI es"

definition showToast :: "string \<Rightarrow> toast_type \<Rightarrow> ievent list" where
  "showToast message type = [SetToastMessage (Some message), SetToastType type]"

definition invoicesListRequest :: "host \<Rightarrow> request" where
  "invoicesListRequest h =
     \<lparr> req_method = GET, req_path = ''/invoices'', req_query = [],
       req_authorization = bearer (token h), req_body = [] \<rparr>"

text \<open>
  \<^verbatim>\<open>fetchInvoices\<close>. Without a token the error is thrown inside the \<^verbatim>\<open>try\<close> before any
  request; a 304 returns from the \<^verbatim>\<open>try\<close> with nothing set but the loading flag.
\<close>

definition fetchInvoices_sync :: "host \<Rightarrow> ievent list" where
  "fetchInvoices_sync h =
     [ISetLoading True, ISetError None] @
     (if falsy (token h) then
        [ISetError (Some ''No authentication token found.'')] @
        showToast ''Failed to fetch invoices.'' ToastError @ [ISetLoading False]
      else [IFetch (invoicesListRequest h)])"

definition fetchInvoices_cont :: "(invoice list) outcome \<Rightarrow> ievent list" where
  "fetchInvoices_cont out =
     (case out of
        Rejected msg \<Rightarrow> [ISetError (Some msg)] @ showToast ''Failed to fetch invoices.'' ToastError
      | Resolved r \<Rightarrow>
          if status r = 304 then []
          else if \<not> ok r then
            [ISetError (Some ''Failed to fetch invoices.'')] @
            showToast ''Failed to fetch invoices.'' ToastError
          else
            (case json r of
               NotJson msg \<Rightarrow>
                 [ISetError (Some msg)] @ showToast ''Failed to fetch invoices.'' ToastError
             | Json _ d \<Rightarrow> [SetInvoices d]))
     @ [ISetLoading False]"

text \<open>The part of \<^verbatim>\<open>fetchInvoices\<close> after its request, when it made one.\<close>

definition fetchInvoices_rest :: "host \<Rightarrow> (request \<Rightarrow> (invoice list) outcome) \<Rightarrow> ievent list" where
  "fetchInvoices_rest h net =
     (if falsy (token h) then [] else fetchInvoices_cont (net (invoicesListRequest h)))"

definition fetchInvoices :: "host \<Rightarrow> (request \<Rightarrow> (invoice list) outcome) \<Rightarrow> ievent list" where
  "fetchInvoices h net = fetchInvoices_sync h @ fetchInvoices_rest h net"

definition handleModalClose :: "ievent list" where
  "handleModalClose = [SetShowModal False, SetEditingInvoice None]"

text \<open>\<^verbatim>\<open>handleInvoiceSaved\<close>: the list fetch is started, not awaited, then the toast is shown.\<close>

definition handleInvoiceSaved :: "host \<Rightarrow> string \<Rightarrow> ievent list" where
  "handleInvoiceSaved h message = fetchInvoices_sync h @ showToast message ToastSuccess"

definition saveInvoiceRequest :: "host \<Rightarrow> invoice option \<Rightarrow> mstate \<Rightarrow> string \<Rightarrow> request" where
  "saveInvoiceRequest h initialInvoice m formattedDueDate =
     \<lparr> req_method = (case initialInvoice of None \<Rightarrow> POST | Some _ \<Rightarrow> PATCH),
       req_path = (case initialInvoice of None \<Rightarrow> ''/invoices''
                   | Some i \<Rightarrow> ''/invoices/'' @ inv_id i),
       req_query = [],
       req_authorization = bearer (token h),
       req_body =
         [(''clientEmail'', JStr (clientEmail m)),
          (''clientPhone'', JStr (clientPhone m)),
          (''amount'', JNum (parseFloat (amount m))),
          (''status'', JStr (case initialInvoice of None \<Rightarrow> ''PENDING'' | Some i \<Rightarrow> inv_status i)),
          (''description'', JStr (description m)),
          (''date'', JStr (now h)),
          (''dueDate'', JStr formattedDueDate)] \<rparr>"

text \<open>
  \<^verbatim>\<open>handleSaveInvoice\<close> up to its request: three validations and the token check each set the
  error and return; the due date is converted before the \<^verbatim>\<open>try\<close>, so an invalid one leaves
  the handler by a \<^verbatim>\<open>RangeError\<close>.
\<close>

definition saveInvoiceBlocked :: "host \<Rightarrow> mstate \<Rightarrow> string option" where
  "saveInvoiceBlocked h m =
     (if trim (clientEmail m) = [] then Some ''Client email is required.''
      else if trim (amount m) = [] \<or> parseFloat (amount m) = NaN
        then Some ''A valid amount is required.''
      else if trim (dueDate m) = [] then Some ''Due date is required.''
      else if falsy (token h) then Some ''Authentication token not found.''
      else None)"

definition handleSaveInvoice_sync :: "host \<Rightarrow> invoice option \<Rightarrow> mstate \<Rightarrow> ievent list" where
  "handleSaveInvoice_sync h initialInvoice m =
     [MSetLoading True, MSetError None] @
     (case saveInvoiceBlocked h m of
        Some msg \<Rightarrow> [MSetError (Some msg), MSetLoading False]
      | None \<Rightarrow>
          (case toISOString h (dueDate m) of
             None \<Rightarrow> []
           | Some d \<Rightarrow> [IFetch (saveInvoiceRequest h initialInvoice m d)]))"

text \<open>
  The message thrown for a failed save: that of the rejection; for a status outside
  200..299 the \<^verbatim>\<open>message\<close> of the body when it has one, the fixed text when it has none, and
  the fixed text with the status text when the body is not JSON.
\<close>

definition saveInvoiceFailure :: "bool \<Rightarrow> 'd outcome \<Rightarrow> string option" where
  "saveInvoiceFailure isEditing out =
     (case out of
        Rejected msg \<Rightarrow> Some msg
      | Resolved r \<Rightarrow>
          if \<not> ok r then
            (case json r of
               NotJson _ \<Rightarrow>
                 Some (''Failed to '' @ (if isEditing then ''update'' else ''create'') @
                       '' invoice: '' @ statusText r)
             | Json m _ \<Rightarrow>
                 Some (orElse m (''Failed to '' @ (if isEditing then ''update'' else ''create'') @
                                 '' invoice.'')))
          else None)"

definition handleSaveInvoice_cont ::
  "host \<Rightarrow> (request \<Rightarrow> (invoice list) outcome) \<Rightarrow> invoice option \<Rightarrow> (invoice list) outcome \<Rightarrow>
   ievent list" where
  "handleSaveInvoice_cont h net initialInvoice out =
     (case saveInvoiceFailure (initialInvoice \<noteq> None) out of
        Some msg \<Rightarrow> [MSetError (Some msg), MSetLoading False]
      | None \<Rightarrow>
          handleInvoiceSaved h
            (''Invoice '' @ (if initialInvoice \<noteq> None then ''updated'' else ''created'') @
             '' successfully!'') @
          handleModalClose @ [MSetLoading False] @ fetchInvoices_rest h net)"

definition handleSaveInvoice ::
  "host \<Rightarrow> (request \<Rightarrow> (invoice list) outcome) \<Rightarrow> invoice option \<Rightarrow> mstate \<Rightarrow> ievent list" where
  "handleSaveInvoice h net initialInvoice m =
     handleSaveInvoice_sync h initialInvoice m @
     (case saveInvoiceBlocked h m of
        Some _ \<Rightarrow> []
      | None \<Rightarrow>
          (case toISOString h (dueDate m) of
             None \<Rightarrow> []
           | Some d \<Rightarrow>
               handleSaveInvoice_cont h net initialInvoice
                 (net (saveInvoiceRequest h initialInvoice m d))))"

text \<open>\<^verbatim>\<open>handleDeleteClick\<close> opens the confirmation and stores the closure that deletes.\<close>

definition handleDeleteClick :: "invoice \<Rightarrow> ievent list" where
  "handleDeleteClick i = [SetShowConfirmModal True, SetConfirmAction (Some i)]"

definition deleteInvoiceRequest :: "host \<Rightarrow> invoice \<Rightarrow> request" where
  "deleteInvoiceRequest h i =
     \<lparr> req_method = DELETE, req_path = ''/invoices/'' @ inv_id i, req_query = [],
       req_authorization = bearer (token h), req_body = [] \<rparr>"

text \<open>The \<^verbatim>\<open>catch\<close> of the stored closure.\<close>

definition deleteInvoiceFailed :: "string \<Rightarrow> ievent list" where
  "deleteInvoiceFailed msg =
     [ISetError (Some msg), SetShowConfirmModal False] @
     showToast ''Failed to delete invoice.'' ToastError"

definition confirmDelete_sync :: "host \<Rightarrow> invoice \<Rightarrow> ievent list" where
  "confirmDelete_sync h i =
     (if falsy (token h) then deleteInvoiceFailed ''Authentication token not found.''
      else [IFetch (deleteInvoiceRequest h i)])"

definition confirmDelete_cont ::
  "host \<Rightarrow> (request \<Rightarrow> (invoice list) outcome) \<Rightarrow> (invoice list) outcome \<Rightarrow> ievent list" where
  "confirmDelete_cont h net out =
     (case out of
        Rejected msg \<Rightarrow> deleteInvoiceFailed msg
      | Resolved r \<Rightarrow>
          if \<not> ok r then deleteInvoiceFailed ''Failed to delete invoice.''
          else
            fetchInvoices_sync h @ [SetShowConfirmModal False] @
            showToast ''Invoice deleted successfully!'' ToastDeletion @
            fetchInvoices_rest h net)"

definition confirmDelete ::
  "host \<Rightarrow> (request \<Rightarrow> (invoice list) outcome) \<Rightarrow> invoice \<Rightarrow> ievent list" where
  "confirmDelete h net i =
     confirmDelete_sync h i @
     (if falsy (token h) then [] else confirmDelete_cont h net (net (deleteInvoiceRequest h i)))"

text \<open>
  The two submit buttons of the invoice page. The one of the create/edit modal carries
  \<^verbatim>\<open>disabled={loading}\<close>. The \<^verbatim>\<open>Delete\<close> button of the confirmation modal has no
  \<^verbatim>\<open>disabled\<close> attribute: it runs the stored closure whenever the modal is shown.
\<close>

definition clickSaveInvoice :: "host \<Rightarrow> invoice option \<Rightarrow> mstate \<Rightarrow> ievent list" where
  "clickSaveInvoice h initialInvoice m =
     (if \<not> m_loading m then handleSaveInvoice_sync h initialInvoice m else [])"

definition clickConfirmDelete :: "host \<Rightarrow> istate \<Rightarrow> ievent list" where
  "clickConfirmDelete h st =
     (if showConfirmModal st then
        (case confirmAction st of None \<Rightarrow> [] | Some i \<Rightarrow> confirmDelete_sync h i)
      else [])"

section \<open>Dashboard: the distribution of the outstanding amount\<close>

record top_debtor =
  td_clientEmail :: string
  overdueInvoiceCount :: int
  outstanding :: rat

record payment_received =
  today :: rat
  thisWeek :: rat
  thisMonth :: rat

record dashboard_stats =
  totalPendingPayments :: rat
  totalCompletedPayments :: rat
  totalOutstanding :: rat
  paymentsThisMonth :: rat
  totalActiveInvoices :: rat
  paymentSuccessRate :: rat
  paymentReceived :: payment_received
  topDebtors :: "top_debtor list"

record chart_entry =
  name :: string
  chart_value :: jsnum

text \<open>
  \<^verbatim>\<open>outstandingData\<close>. The figures of the statistics come from a JSON body and are finite
  doubles; the sum of the top debtors and the residual are computed on doubles. \<^verbatim>\<open>sort\<close>
  with the comparator \<^verbatim>\<open>b.outstanding - a.outstanding\<close> is a stable sort by descending
  outstanding amount (the difference of two finite doubles has the sign of the exact
  difference); \<^verbatim>\<open>split('@')[0]\<close> is the text before the first \<^verbatim>\<open>@\<close>.
\<close>

definition outstandingData :: "dashboard_stats option \<Rightarrow> chart_entry list" where
  "outstandingData dashboardStats =
     (case dashboardStats of
        None \<Rightarrow> []
      | Some s \<Rightarrow>
          if topDebtors s = [] then []
          else
            let topN = 4;
                sorted = sort_key (\<lambda>d. - outstanding d) (topDebtors s);
                top = map (\<lambda>d. \<lparr> name = takeWhile (\<lambda>c. c \<noteq> CHR ''@'') (td_clientEmail d),
                                 chart_value = Fin (outstanding d) \<rparr>) (take topN sorted);
                topSum = foldl (\<lambda>acc cur. js_add acc (chart_value cur)) (Fin 0) top;
                balanceOutstanding = js_sub (Fin (totalOutstanding s)) topSum
            in if js_positive balanceOutstanding
               then top @ [\<lparr> name = ''Others'', chart_value = balanceOutstanding \<rparr>]
               else top)"

section \<open>Outcomes of a mutation, and the sum over the statuses\<close>

text \<open>A mutation has failed when its request was rejected or answered outside 200..299.\<close>

definition failed :: "'d outcome \<Rightarrow> bool" where
  "failed out = (case out of Rejected _ \<Rightarrow> True | Resolved r \<Rightarrow> \<not> ok r)"

text \<open>A mutation has succeeded when its request was answered with a status in 200..299.\<close>

definition succeeded :: "'d outcome \<Rightarrow> bool" where
  "succeeded out = (case out of Rejected _ \<Rightarrow> False | Resolved r \<Rightarrow> ok r)"

text \<open>
  \<^verbatim>\<open>Number.isInteger\<close>, the value of a finite number (\<open>0\<close> for the others), and
  \<^verbatim>\<open>Number.MAX_SAFE_INTEGER\<close>: integers up to it in magnitude are doubles.
\<close>

definition isInteger :: "jsnum \<Rightarrow> bool" where
  "isInteger x = (case x of Fin r \<Rightarrow> r = of_int \<lfloor>r\<rfloor> | _ \<Rightarrow> False)"

definition finiteValue :: "jsnum \<Rightarrow> rat" where
  "finiteValue x = (case x of Fin r \<Rightarrow> r | _ \<Rightarrow> 0)"

definition maxSafeInteger :: rat where
  "maxSafeInteger = 2 ^ 53 - 1"

text \<open>The statuses of \<^verbatim>\<open>Payment['status']\<close>, and the sum of the per-status amounts over them.\<close>

definition paymentStatuses :: "string list" where
  "paymentStatuses = [''completed'', ''pending'', ''failed'', ''refunded'']"

definition amountOverStatuses :: "pstate \<Rightarrow> jsnum" where
  "amountOverStatuses st = foldl js_add (Fin 0) (map (\<lambda>s. amountByStatus s st) paymentStatuses)"

section \<open>Initial states and sample inputs\<close>

text \<open>The initial values of the \<^verbatim>\<open>useState\<close> calls of the three screens.\<close>

definition initialP :: pstate where
  "initialP =
     \<lparr> payments = [], loading = True, error = None, searchTerm = [], statusFilter = ''all'',
       methodFilter = ''all'', showCreateModal = False, showViewModal = False,
       showUpdateModal = False, showDeleteModal = False, selectedPayment = None,
       editingPayment = None, isSubmitting = False, submitError = None,
       newPayment = \<lparr> np_invoiceId = [], np_clientEmail = [], np_amount = [], np_method = ''CASH'',
                      np_status = ''COMPLETED'', np_reference = [], np_date = [] \<rparr> \<rparr>"

definition initialU :: ustate where
  "initialU =
     \<lparr> users = Some [], isLoading = True, u_error = None, newUserName = [], newUserEmail = [],
       newUserPassword = [], newUserRole = ''accountant'', isAddingUser = False,
       addUserError = None, showPassword = False, showEditModal = False, editingUser = None,
       editUserName = [], editUserEmail = [], editUserRole = ''accountant'',
       editUserPassword = [], isUpdatingUser = False, updateUserError = None,
       u_showDeleteModal = False, userToDelete = None, isDeleting = False, deleteError = None,
       u_searchTerm = [], roleFilter = ''all'', u_showCreateModal = False \<rparr>"

definition initialI :: istate where
  "initialI =
     \<lparr> invoices = Some [], i_searchTerm = [], i_statusFilter = ''all'', showModal = False,
       editingInvoice = None, viewingInvoice = None, showConfirmModal = False,
       confirmAction = None, i_loading = True, i_error = None, toastMessage = None,
       toastType = ToastSuccess \<rparr>"

text \<open>A browser with a stored token, and one without.\<close>

definition sampleHost :: host where
  "sampleHost =
     \<lparr> token = Some ''tok'', toLocaleDateString = (\<lambda>s. s),
       toISOString = (\<lambda>s. if s = [] then None else Some (s @ ''T00:00:00.000Z'')),
       now = ''2025-01-01T09:00:00.000Z'' \<rparr>"

definition noTokenHost :: host where
  "noTokenHost = sampleHost\<lparr>token := None\<rparr>"

text \<open>A network that answers every request with the same status and body.\<close>

definition reply :: "nat \<Rightarrow> 'd json \<Rightarrow> request \<Rightarrow> 'd outcome" where
  "reply code body q = Resolved \<lparr> status = code, statusText = [], json = body \<rparr>"

definition rawPayment :: "string \<Rightarrow> string \<Rightarrow> api_payment" where
  "rawPayment amt st =
     \<lparr> api_id = ''P1'', api_year = 2025, api_series = 1, api_invoice_id = ''I1'',
       api_client_email = ''a@b.c'', api_amount = amt, api_method = ''BANK_TRANSFER'',
       api_status = st, api_date = ''2025-01-01'', api_created_at = [], api_updated_at = [] \<rparr>"

definition paymentsReply :: "api_payment list \<Rightarrow> request \<Rightarrow> (api_payment list) outcome" where
  "paymentsReply d = reply 200 (Json None (Some d))"

definition sampleInvoice :: invoice where
  "sampleInvoice =
     \<lparr> inv_id = ''I1'', inv_year = 2025, inv_series = 1, inv_client_email = ''a@b.c'',
       inv_client_phone = ''1'', inv_amount = ''1500.50'', inv_status = ''PENDING'',
       inv_date = ''2025-01-01'', inv_due_date = ''2025-02-01'', inv_description = None,
       inv_customer_id = None, inv_created_at = [], inv_updated_at = [] \<rparr>"

definition debtor :: "string \<Rightarrow> rat \<Rightarrow> top_debtor" where
  "debtor e v = \<lparr> td_clientEmail = e, overdueInvoiceCount = 1, outstanding = v \<rparr>"

definition statsOf :: "rat \<Rightarrow> top_debtor list \<Rightarrow> dashboard_stats" where
  "statsOf tot ds =
     \<lparr> totalPendingPayments = 0, totalCompletedPayments = 0, totalOutstanding = tot,
       paymentsThisMonth = 0, totalActiveInvoices = 0, paymentSuccessRate = 0,
       paymentReceived = \<lparr> today = 0, thisWeek = 0, thisMonth = 0 \<rparr>, topDebtors = ds \<rparr>"

text \<open>States with a loaded collection, a filled form, an open confirmation, and some answers.\<close>

definition sampleUser :: user where
  "sampleUser =
     \<lparr> user_id = 7, user_email = ''u@b.c'', user_name = ''U'', user_role = ''admin'',
       user_created_at = [], user_updated_at = [] \<rparr>"

definition loadedP :: pstate where
  "loadedP =
     initialP\<lparr> payments := [mapPayment sampleHost (rawPayment ''10'' ''COMPLETED'')],
               loading := False \<rparr>"

definition loadedU :: ustate where
  "loadedU = initialU\<lparr>users := Some [sampleUser], isLoading := False\<rparr>"

definition loadedI :: istate where
  "loadedI = initialI\<lparr>invoices := Some [sampleInvoice], i_loading := False\<rparr>"

definition tokenExpired :: "request \<Rightarrow> 'd outcome" where
  "tokenExpired = reply 401 (Json (Some ''token expired'') None)"

definition notModified :: "request \<Rightarrow> 'd outcome" where
  "notModified = reply 304 (NotJson ''Unexpected end of JSON input'')"

definition filledP :: pstate where
  "filledP =
     initialP\<lparr> showCreateModal := True,
               newPayment := \<lparr> np_invoiceId = ''I1'', np_clientEmail = ''a@b.c'',
                                np_amount = ''1500.50'', np_method = ''CASH'',
                                np_status = ''COMPLETED'', np_reference = ''r'',
                                np_date = ''2025-01-01'' \<rparr> \<rparr>"

definition filledM :: mstate where
  "filledM =
     \<lparr> clientEmail = ''a@b.c'', clientPhone = ''1'', amount = ''1500.50'',
       dueDate = ''2025-01-01'', description = [], m_loading = False, m_error = None \<rparr>"

definition confirmingI :: istate where
  "confirmingI = runI loadedI (handleDeleteClick sampleInvoice)"

definition listOk :: "request \<Rightarrow> ('a list) outcome" where
  "listOk = reply 200 (Json None (Some []))"

definition serverError :: "request \<Rightarrow> 'd outcome" where
  "serverError = reply 500 (Json (Some ''boom'') None)"

definition fiveDebtors :: "top_debtor list" where
  "fiveDebtors =
     [debtor ''c@x'' 60, debtor ''a@x'' 100, debtor ''e@x'' 20, debtor ''b@x'' 80,
      debtor ''d@x'' 40]"

section \<open>Evaluation rules\<close>

lemmas string_rules = toLowerCase_def toLowerChar_def toUpperCase_def toUpperChar_def

lemmas parseFloat_rules =
  parseFloat_def isWhiteSpace_def isDigit_def digitsVal_def digitVal_def exponentPart_def
  scale10_def

lemmas fetchPayments_rules =
  runP_def fetchPayments_def fetchPayments_sync_def fetchPayments_cont_def ok_def

lemmas fetchUsers_rules =
  runU_def fetchUsers_def fetchUsers_sync_def fetchUsers_cont_def ok_def

lemmas fetchInvoices_rules =
  runI_def fetchInvoices_def fetchInvoices_sync_def fetchInvoices_cont_def
  fetchInvoices_rest_def showToast_def ok_def falsy_def

section \<open>Doubles\<close>

text \<open>Numbers that are doubles are their own rounding; so are the integers a double can hold.\<close>

lemma pow2_pos: "0 < pow2 e"
  by (simp add: pow2_def)

lemma pow2_zero: "pow2 0 = 1"
  by (simp add: pow2_def)

lemma is_doubleI:
  assumes "\<bar>m\<bar> < 2 ^ 53" and "- 1074 \<le> e" and "e \<le> 971"
  shows "is_double (of_int m * pow2 e)"
proof -
  have q: "of_int m * pow2 e / pow2 e = (of_int m :: rat)"
    using pow2_pos [of e] by simp
  have "\<bar>(of_int m :: rat)\<bar> < 2 ^ 53"
  proof -
    have "(of_int \<bar>m\<bar> :: rat) < of_int (2 ^ 53)" using assms(1) by (simp only: of_int_less_iff)
    then show ?thesis by simp
  qed
  then have "of_int m * pow2 e / pow2 e = of_int \<lfloor>of_int m * pow2 e / pow2 e\<rfloor> \<and>
             \<bar>of_int m * pow2 e / pow2 e\<bar> < 2 ^ 53"
    unfolding q by simp
  moreover have "e \<in> set exponents"
    unfolding exponents_def set_upto using assms(2,3) by (simp only: atLeastAtMost_iff)
  ultimately show ?thesis unfolding is_double_def by blast
qed

lemma round_double_exact: "is_double r \<Longrightarrow> round_double r = Fin r"
  by (simp add: round_double_def)

lemma round_double_int:
  assumes "\<bar>n\<bar> < 2 ^ 53"
  shows "round_double (of_int n) = Fin (of_int n)"
proof -
  have "is_double (of_int n * pow2 0)" by (rule is_doubleI [OF assms]) simp_all
  then show ?thesis by (simp add: pow2_zero round_double_exact)
qed

lemma round_double_half:
  assumes "\<bar>n\<bar> < 2 ^ 53"
  shows "round_double (of_int n / 2) = Fin (of_int n / 2)"
proof -
  have "is_double (of_int n * pow2 (- 1))" by (rule is_doubleI [OF assms]) simp_all
  then show ?thesis by (simp add: pow2_def round_double_exact)
qed

lemma round_double_numeral [simp]:
  "numeral k < (2 :: int) ^ 53 \<Longrightarrow> round_double (numeral k) = Fin (numeral k)"
  "numeral k < (2 :: int) ^ 53 \<Longrightarrow> round_double (- numeral k) = Fin (- numeral k)"
  "numeral k < (2 :: int) ^ 53 \<Longrightarrow> round_double (numeral k / 2) = Fin (numeral k / 2)"
  "round_double 0 = Fin 0"
  "round_double 1 = Fin 1"
  using round_double_int [of "numeral k"] round_double_int [of "- numeral k"]
    round_double_half [of "numeral k"] round_double_int [of 0] round_double_int [of 1]
  by simp_all

lemma round_double_not_NaN: "round_double r \<noteq> NaN"
  by (simp add: round_double_def signedInfinity_def Let_def split: option.split)

text \<open>
  A number half-way between two neighbouring doubles is rounded to the one with the even
  significand: \<open>(2\<^sup>5\<^sup>3 + 1) \<sqdot> 2\<^sup>g\<close> lies between \<open>2\<^sup>5\<^sup>3 \<sqdot> 2\<^sup>g\<close> and \<open>(2\<^sup>5\<^sup>3 + 2) \<sqdot> 2\<^sup>g\<close> and is rounded
  down. In particular \<open>2\<^sup>5\<^sup>3 + 1\<close> is rounded to \<open>2\<^sup>5\<^sup>3\<close> and \<open>2\<^sup>5\<^sup>2 + 1/2\<close> to \<open>2\<^sup>5\<^sup>2\<close>.
\<close>

lemma pow2_powi: "pow2 e = 2 powi e"
  by (simp add: pow2_def power_int_def power_one_over inverse_eq_divide)

lemma pow2_add: "pow2 (a + b) = pow2 a * pow2 b"
  by (simp add: pow2_powi power_int_add)

lemma pow2_mono: "a \<le> b \<Longrightarrow> pow2 a \<le> pow2 b"
  by (simp add: pow2_powi power_int_increasing)

lemma pow2_succ: "pow2 (g + 1) = 2 * pow2 g"
  using pow2_add [of g 1] by (simp add: pow2_def)

lemma pow2_ge_one: "0 \<le> e \<Longrightarrow> 1 \<le> pow2 e"
  by (simp add: pow2_def)

lemma find_least_upto:
  assumes "i \<le> k" and "k \<le> j" and "P k" and "\<forall>e. i \<le> e \<and> e < k \<longrightarrow> \<not> P e"
  shows "find P [i..j] = Some k"
proof -
  have "nat (k - i) < length [i..j]" using assms(1,2) by simp
  moreover have "[i..j] ! nat (k - i) = k" using assms(1,2) by simp
  moreover have "\<forall>m < nat (k - i). \<not> P ([i..j] ! m)"
  proof (intro allI impI)
    fix m assume m: "m < nat (k - i)"
    then have "[i..j] ! m = i + int m" using assms(1,2) by simp
    moreover have "i \<le> i + int m \<and> i + int m < k" using m by linarith
    ultimately show "\<not> P ([i..j] ! m)" using assms(4) by simp
  qed
  ultimately show ?thesis using assms(3) unfolding find_Some_iff by metis
qed

lemma odd_not_multiple:
  assumes "1 \<le> n"
  shows "(2 ^ 53 + 1) / 2 ^ n \<noteq> (of_int z :: rat)"
proof
  assume "(2 ^ 53 + 1) / 2 ^ n = (of_int z :: rat)"
  then have "(2 ^ 53 + 1 :: rat) = of_int z * 2 ^ n" by (simp add: field_simps)
  then have "(of_int (2 ^ 53 + 1) :: rat) = of_int (z * 2 ^ n)" by simp
  then have "(2 ^ 53 + 1 :: int) = z * 2 ^ n" by (simp only: of_int_eq_iff)
  moreover have "even (z * 2 ^ n)" using assms by simp
  ultimately have "even (2 ^ 53 + 1 :: int)" by simp
  then show False by simp
qed

lemma tie_not_double:
  "\<not> is_double ((2 ^ 53 + 1) * pow2 g)"
proof
  assume "is_double ((2 ^ 53 + 1) * pow2 g)"
  then obtain e where q: "(2 ^ 53 + 1) * pow2 g / pow2 e =
       of_int \<lfloor>(2 ^ 53 + 1) * pow2 g / pow2 e\<rfloor>"
    and b: "\<bar>(2 ^ 53 + 1) * pow2 g / pow2 e\<bar> < 2 ^ 53"
    unfolding is_double_def by blast
  have pe: "0 < pow2 e" by (rule pow2_pos)
  have split: "pow2 g = pow2 (g - e) * pow2 e" using pow2_add [of "g - e" e] by simp
  have qv: "(2 ^ 53 + 1) * pow2 g / pow2 e = (2 ^ 53 + 1) * pow2 (g - e)"
    using pe by (simp add: split)
  show False
  proof (cases "e \<le> g")
    case True
    then have "1 \<le> pow2 (g - e)" by (simp add: pow2_ge_one)
    then have "(2 ^ 53 + 1 :: rat) * 1 \<le> (2 ^ 53 + 1) * pow2 (g - e)"
      by (intro mult_left_mono) simp_all
    with b show False unfolding qv by simp
  next
    case False
    then have n: "1 \<le> nat (e - g)" by simp
    from False have "pow2 (g - e) = 1 / 2 ^ nat (e - g)" by (simp add: pow2_def)
    then have "(2 ^ 53 + 1) * pow2 (g - e) = (2 ^ 53 + 1) / 2 ^ nat (e - g)" by simp
    with q qv odd_not_multiple [OF n] show False by metis
  qed
qed

lemma tie_exponent:
  assumes "- 1075 \<le> g" and "g \<le> 970"
  shows "find (\<lambda>e. \<bar>(2 ^ 53 + 1) * pow2 g\<bar> < 2 ^ 53 * pow2 e) exponents = Some (g + 1)"
  unfolding exponents_def
proof (rule find_least_upto)
  have pg: "0 < pow2 g" by (rule pow2_pos)
  then have av: "\<bar>(2 ^ 53 + 1) * pow2 g\<bar> = (2 ^ 53 + 1) * pow2 g" by simp
  show "- 1074 \<le> g + 1" using assms by simp
  show "g + 1 \<le> 971" using assms by simp
  show "\<bar>(2 ^ 53 + 1) * pow2 g\<bar> < 2 ^ 53 * pow2 (g + 1)"
    unfolding av pow2_succ using pg by simp
  show "\<forall>e. - 1074 \<le> e \<and> e < g + 1 \<longrightarrow> \<not> \<bar>(2 ^ 53 + 1) * pow2 g\<bar> < 2 ^ 53 * pow2 e"
  proof (intro allI impI)
    fix e assume "- 1074 \<le> e \<and> e < g + 1"
    then have "pow2 e \<le> pow2 g" by (simp add: pow2_mono)
    then have "2 ^ 53 * pow2 e \<le> (2 ^ 53 :: rat) * pow2 g" by simp
    also have "\<dots> \<le> (2 ^ 53 + 1) * pow2 g" using pg by simp
    finally show "\<not> \<bar>(2 ^ 53 + 1) * pow2 g\<bar> < 2 ^ 53 * pow2 e" unfolding av by simp
  qed
qed

lemma round_half_even_tie: "round_half_even ((2 ^ 53 + 1) / 2) = 2 ^ 52"
proof -
  have f: "\<lfloor>(2 ^ 53 + 1) / 2 :: rat\<rfloor> = 2 ^ 52"
    by (rule floor_unique) simp_all
  show ?thesis unfolding round_half_even_def Let_def f by simp
qed

lemma round_double_tie:
  assumes "- 1075 \<le> g" and "g \<le> 970"
  shows "round_double ((2 ^ 53 + 1) * pow2 g) = Fin (2 ^ 53 * pow2 g)"
proof -
  have pg: "0 < pow2 g" by (rule pow2_pos)
  have q: "(2 ^ 53 + 1) * pow2 g / pow2 (g + 1) = (2 ^ 53 + 1) / 2"
    unfolding pow2_succ using pg by simp
  have v: "of_int (round_half_even ((2 ^ 53 + 1) / 2)) * pow2 (g + 1) = 2 ^ 53 * pow2 g"
    unfolding round_half_even_tie pow2_succ by simp
  have "pow2 g \<le> pow2 970" using assms(2) by (rule pow2_mono)
  then have "2 ^ 53 * pow2 g \<le> (2 ^ 53 :: rat) * 2 ^ 970" by (simp add: pow2_def)
  also have "\<dots> < 2 ^ 1024" by simp
  finally have small: "\<not> 2 ^ 1024 \<le> \<bar>2 ^ 53 * pow2 g\<bar>" using pg by simp
  show ?thesis
    by (simp only: round_double_def tie_not_double if_False tie_exponent [OF assms]
        option.case Let_def q v small)
qed

lemma round_double_ties:
  "round_double 9007199254740993 = Fin 9007199254740992"
  "round_double (9007199254740993 / 2) = Fin 4503599627370496"
  using round_double_tie [of 0] round_double_tie [of "- 1"]
  by (simp_all add: pow2_def)

lemma round_double_even:
  assumes "\<bar>m\<bar> < 2 ^ 53"
  shows "round_double (of_int m * 2) = Fin (of_int m * 2)"
proof -
  have "is_double (of_int m * pow2 1)" by (rule is_doubleI [OF assms]) simp_all
  then show ?thesis by (simp add: pow2_def round_double_exact)
qed

lemma round_double_large:
  "round_double 9007199254740992 = Fin 9007199254740992"
  "round_double 9007199254740994 = Fin 9007199254740994"
  "round_double (1 / 2) = Fin (1 / 2)"
  using round_double_even [of 4503599627370496] round_double_even [of 4503599627370497]
    round_double_half [of 1]
  by simp_all

section \<open>The mapping of a raw payment record\<close>

text \<open>
  Claim C10. For every raw payment record, whatever it carries beyond the fields of
  \<^verbatim>\<open>ApiPayment\<close>, the mapped payment has the empty string as its reference, and the view
  modal therefore shows \<^verbatim>\<open>N/A\<close> for it.
\<close>

theorem mapPayment_reference_empty:
  "reference (mapPayment h item) = [] \<and> referenceDisplay (mapPayment h item) = ''N/A''"
  by (simp add: mapPayment_def referenceDisplay_def)

text \<open>
  Claim C1 asks that a raw record whose amount is not a number be turned into a mapping
  error and never into a payment with a \<^verbatim>\<open>NaN\<close> amount. The list fetch has no such error:
  for the amount \<^verbatim>\<open>abc\<close> it stores a payment whose amount is \<^verbatim>\<open>NaN\<close> and reports nothing.
\<close>

theorem fetchPayments_nan_amount_counterexample:
  "api_amount (rawPayment ''abc'' ''COMPLETED'') = ''abc'' \<and>
   error (runP initialP
            (fetchPayments sampleHost (paymentsReply [rawPayment ''abc'' ''COMPLETED'']))) = None \<and>
   map payment_amount
     (payments (runP initialP
                  (fetchPayments sampleHost (paymentsReply [rawPayment ''abc'' ''COMPLETED''])))) =
   [NaN]"
  by (simp add: fetchPayments_rules paymentsReply_def reply_def rawPayment_def mapPayment_def
        parseFloat_rules initialP_def)

text \<open>
  Claim C1, as the code has it. When the list request is answered with a success status and a
  body with a \<^verbatim>\<open>data\<close> array, the fetch reports no error and stores one payment per raw
  record, in order; the amount of each is \<^verbatim>\<open>parseFloat\<close> of the raw amount string, which is
  \<^verbatim>\<open>NaN\<close> when the string has no numeric prefix.
\<close>

theorem fetchPayments_maps_every_record:
  assumes "net (paymentsListRequest h) = Resolved r" and "ok r"
    and "json r = Json m (Some items)"
  shows "error (runP st (fetchPayments h net)) = None \<and>
         payments (runP st (fetchPayments h net)) = map (mapPayment h) items \<and>
         map payment_amount (payments (runP st (fetchPayments h net))) =
           map (\<lambda>item. parseFloat (api_amount item)) items"
  using assms
  by (simp add: runP_def fetchPayments_def fetchPayments_sync_def fetchPayments_cont_def
        mapPayment_def comp_def)

theorem fetchPayments_maps_every_record_witness:
  "error (runP initialP
            (fetchPayments sampleHost
               (paymentsReply [rawPayment ''1500.50'' ''COMPLETED'',
                               rawPayment ''12abc'' ''PENDING'',
                               rawPayment ''x'' ''FAILED'']))) = None \<and>
   map payment_amount
     (payments (runP initialP
        (fetchPayments sampleHost
           (paymentsReply [rawPayment ''1500.50'' ''COMPLETED'',
                           rawPayment ''12abc'' ''PENDING'',
                           rawPayment ''x'' ''FAILED''])))) =
   [Fin (3001 / 2), Fin 12, NaN]"
proof -
  let ?items = "[rawPayment ''1500.50'' ''COMPLETED'', rawPayment ''12abc'' ''PENDING'',
                 rawPayment ''x'' ''FAILED'']"
  let ?r = "\<lparr> status = 200, statusText = [], json = Json None (Some ?items) \<rparr>"
  have 1: "paymentsReply ?items (paymentsListRequest sampleHost) = Resolved ?r"
    by (simp add: paymentsReply_def reply_def)
  have 2: "ok ?r" by (simp add: ok_def)
  have 3: "json ?r = Json None (Some ?items)" by simp
  have 4: "map (\<lambda>item. parseFloat (api_amount item)) ?items = [Fin (3001 / 2), Fin 12, NaN]"
    by (simp add: rawPayment_def parseFloat_rules)
  note T = fetchPayments_maps_every_record
         [where net = "paymentsReply ?items" and h = sampleHost and r = ?r and m = None
            and items = ?items and st = initialP, OF 1 2 3]
  from T have a: "error (runP initialP (fetchPayments sampleHost (paymentsReply ?items))) = None"
    by (rule conjunct1)
  from T have c: "map payment_amount
      (payments (runP initialP (fetchPayments sampleHost (paymentsReply ?items)))) =
      map (\<lambda>item. parseFloat (api_amount item)) ?items"
    by (rule conjunct2 [THEN conjunct2])
  show ?thesis unfolding a c 4 by simp
qed

section \<open>The summary figures of the payment screen\<close>

text \<open>
  Sums of integer amounts are exact as long as the magnitudes add up to no more than
  \<^verbatim>\<open>Number.MAX_SAFE_INTEGER\<close>: every partial sum is then an integer a double holds.
\<close>

lemma js_add_int:
  assumes "\<bar>a + b\<bar> < 2 ^ 53"
  shows "js_add (Fin (of_int a)) (Fin (of_int b)) = Fin (of_int (a + b))"
  using round_double_int [OF assms] by simp

lemma isInteger_value:
  assumes "isInteger x"
  shows "x = Fin (of_int \<lfloor>finiteValue x\<rfloor>)"
  using assms by (cases x) (simp_all add: isInteger_def finiteValue_def)

lemma isInteger_magnitude:
  assumes "isInteger x"
  shows "\<bar>finiteValue x\<bar> = of_int \<bar>\<lfloor>finiteValue x\<rfloor>\<bar>"
proof -
  from assms obtain r where x: "x = Fin r" and r: "r = of_int \<lfloor>r\<rfloor>"
    by (cases x) (simp_all add: isInteger_def)
  have "\<bar>r\<bar> = \<bar>of_int \<lfloor>r\<rfloor>\<bar>" using r by simp
  then show ?thesis by (simp add: x finiteValue_def)
qed

lemma magnitudes_of_int:
  assumes "\<forall>p \<in> set ps. isInteger (payment_amount p)"
  shows "sum_list (map (\<lambda>p. \<bar>finiteValue (payment_amount p)\<bar>) ps) =
         of_int (sum_list (map (\<lambda>p. \<bar>\<lfloor>finiteValue (payment_amount p)\<rfloor>\<bar>) ps))"
  using assms by (induction ps) (simp_all add: isInteger_magnitude)

lemma foldl_js_add_int:
  assumes "\<forall>x \<in> set xs. isInteger x"
    and "\<bar>a\<bar> + sum_list (map (\<lambda>x. \<bar>\<lfloor>finiteValue x\<rfloor>\<bar>) xs) < 2 ^ 53"
  shows "foldl js_add (Fin (of_int a)) xs =
         Fin (of_int (a + sum_list (map (\<lambda>x. \<lfloor>finiteValue x\<rfloor>) xs)))"
  using assms
proof (induction xs arbitrary: a)
  case Nil
  then show ?case by simp
next
  case (Cons x xs)
  let ?n = "\<lfloor>finiteValue x\<rfloor>"
  from Cons.prems(1) have x: "x = Fin (of_int ?n)"
    using isInteger_value [of x] by simp
  have nonneg: "0 \<le> sum_list (map (\<lambda>x. \<bar>\<lfloor>finiteValue x\<rfloor>\<bar>) xs)"
    by (rule sum_list_nonneg) auto
  from Cons.prems(2) nonneg have b: "\<bar>a + ?n\<bar> < 2 ^ 53" by simp
  have step: "js_add (Fin (of_int a)) x = Fin (of_int (a + ?n))"
    using js_add_int [OF b] x by simp
  from Cons.prems(2)
  have b': "\<bar>a + ?n\<bar> + sum_list (map (\<lambda>x. \<bar>\<lfloor>finiteValue x\<rfloor>\<bar>) xs) < 2 ^ 53"
    by simp
  from Cons.prems(1) have rest: "\<forall>x \<in> set xs. isInteger x" by simp
  show ?case
    using Cons.IH [OF rest b'] by (simp add: step add.assoc)
qed

lemma foldl_amounts_int:
  assumes "\<forall>p \<in> set qs. isInteger (payment_amount p)"
    and "\<bar>a\<bar> + sum_list (map (\<lambda>p. \<bar>\<lfloor>finiteValue (payment_amount p)\<rfloor>\<bar>) qs) < 2 ^ 53"
  shows "foldl (\<lambda>sum p. js_add sum (payment_amount p)) (Fin (of_int a)) qs =
         Fin (of_int (a + sum_list (map (\<lambda>p. \<lfloor>finiteValue (payment_amount p)\<rfloor>) qs)))"
  using foldl_js_add_int [where xs = "map payment_amount qs" and a = a] assms
  by (simp add: foldl_map comp_def)

lemma sumAmounts_int:
  assumes "\<forall>p \<in> set qs. isInteger (payment_amount p)"
    and "sum_list (map (\<lambda>p. \<bar>\<lfloor>finiteValue (payment_amount p)\<rfloor>\<bar>) qs) < 2 ^ 53"
  shows "sumAmounts qs = Fin (of_int (sum_list (map (\<lambda>p. \<lfloor>finiteValue (payment_amount p)\<rfloor>) qs)))"
  using foldl_amounts_int [where a = 0 and qs = qs] assms by (simp add: sumAmounts_def)

lemma sum_list_filter_le:
  assumes "\<forall>x \<in> set xs. (0 :: int) \<le> f x"
  shows "sum_list (map f (filter P xs)) \<le> sum_list (map f xs)"
  using assms by (induction xs) (auto intro: add_increasing)

lemma sum_list_by_status:
  fixes f :: "payment \<Rightarrow> int"
  assumes "\<forall>p \<in> set ps. payment_status p \<in> set paymentStatuses"
  shows "sum_list (map f (filter (\<lambda>p. payment_status p = ''completed'') ps)) +
         sum_list (map f (filter (\<lambda>p. payment_status p = ''pending'') ps)) +
         sum_list (map f (filter (\<lambda>p. payment_status p = ''failed'') ps)) +
         sum_list (map f (filter (\<lambda>p. payment_status p = ''refunded'') ps)) =
         sum_list (map f ps)"
  using assms
proof (induction ps)
  case Nil
  then show ?case by simp
next
  case (Cons p ps)
  from Cons.prems have "payment_status p = ''completed'' \<or> payment_status p = ''pending'' \<or>
     payment_status p = ''failed'' \<or> payment_status p = ''refunded''"
    by (simp add: paymentStatuses_def)
  moreover from Cons have "sum_list (map f (filter (\<lambda>p. payment_status p = ''completed'') ps)) +
         sum_list (map f (filter (\<lambda>p. payment_status p = ''pending'') ps)) +
         sum_list (map f (filter (\<lambda>p. payment_status p = ''failed'') ps)) +
         sum_list (map f (filter (\<lambda>p. payment_status p = ''refunded'') ps)) =
         sum_list (map f ps)" by simp
  ultimately show ?case by (elim disjE) simp_all
qed

lemma amounts_partition_int:
  assumes valid: "\<forall>p \<in> set ps. payment_status p \<in> set paymentStatuses"
    and ints: "\<forall>p \<in> set ps. isInteger (payment_amount p)"
    and bound: "sum_list (map (\<lambda>p. \<bar>finiteValue (payment_amount p)\<bar>) ps) \<le> maxSafeInteger"
  shows "js_add (js_add (js_add (js_add (Fin 0)
            (sumAmounts (filter (\<lambda>p. payment_status p = ''completed'') ps)))
            (sumAmounts (filter (\<lambda>p. payment_status p = ''pending'') ps)))
            (sumAmounts (filter (\<lambda>p. payment_status p = ''failed'') ps)))
            (sumAmounts (filter (\<lambda>p. payment_status p = ''refunded'') ps)) =
         sumAmounts ps"
proof -
  let ?v = "\<lambda>p. \<lfloor>finiteValue (payment_amount p)\<rfloor>"
  let ?m = "\<lambda>p. \<bar>\<lfloor>finiteValue (payment_amount p)\<rfloor>\<bar>"
  let ?on = "\<lambda>s. filter (\<lambda>p. payment_status p = s) ps"
  have "(of_int (sum_list (map ?m ps)) :: rat) \<le> of_int (2 ^ 53 - 1)"
    using bound magnitudes_of_int [OF ints] by (simp add: maxSafeInteger_def)
  then have "sum_list (map ?m ps) \<le> 2 ^ 53 - 1"
    by (simp only: of_int_le_iff)
  then have T: "sum_list (map ?m ps) < 2 ^ 53"
    by simp
  have part: "sum_list (map ?m (?on ''completed'')) + sum_list (map ?m (?on ''pending'')) +
              sum_list (map ?m (?on ''failed'')) + sum_list (map ?m (?on ''refunded'')) =
              sum_list (map ?m ps)"
    by (rule sum_list_by_status [OF valid])
  have partv: "sum_list (map ?v (?on ''completed'')) + sum_list (map ?v (?on ''pending'')) +
              sum_list (map ?v (?on ''failed'')) + sum_list (map ?v (?on ''refunded'')) =
              sum_list (map ?v ps)"
    by (rule sum_list_by_status [OF valid])
  have nn: "0 \<le> sum_list (map ?m (?on s))" for s
    by (rule sum_list_nonneg) auto
  have ab: "\<bar>sum_list (map ?v (?on s))\<bar> \<le> sum_list (map ?m (?on s))" for s
    using sum_list_abs [of "map ?v (?on s)"] by (simp add: comp_def)
  have le: "sum_list (map ?m (?on s)) \<le> sum_list (map ?m ps)" for s
    by (rule sum_list_filter_le) simp
  have sub: "sumAmounts (?on s) = Fin (of_int (sum_list (map ?v (?on s))))" for s
  proof (rule sumAmounts_int)
    show "\<forall>p \<in> set (?on s). isInteger (payment_amount p)" using ints by simp
    show "sum_list (map ?m (?on s)) < 2 ^ 53" using le [of s] T by simp
  qed
  have tot: "sumAmounts ps = Fin (of_int (sum_list (map ?v ps)))"
    by (rule sumAmounts_int [OF ints T])
  define C where "C = sum_list (map ?v (?on ''completed''))"
  define P where "P = sum_list (map ?v (?on ''pending''))"
  define F where "F = sum_list (map ?v (?on ''failed''))"
  define R where "R = sum_list (map ?v (?on ''refunded''))"
  define Ca where "Ca = sum_list (map ?m (?on ''completed''))"
  define Pa where "Pa = sum_list (map ?m (?on ''pending''))"
  define Fa where "Fa = sum_list (map ?m (?on ''failed''))"
  define Ra where "Ra = sum_list (map ?m (?on ''refunded''))"
  have abs: "\<bar>C\<bar> \<le> Ca" "\<bar>P\<bar> \<le> Pa" "\<bar>F\<bar> \<le> Fa" "\<bar>R\<bar> \<le> Ra"
    unfolding C_def P_def F_def R_def Ca_def Pa_def Fa_def Ra_def by (rule ab)+
  have pos: "0 \<le> Ca" "0 \<le> Pa" "0 \<le> Fa" "0 \<le> Ra"
    unfolding Ca_def Pa_def Fa_def Ra_def by (rule nn)+
  have all: "Ca + Pa + Fa + Ra < 2 ^ 53"
    unfolding Ca_def Pa_def Fa_def Ra_def part by (rule T)
  have bC: "\<bar>0 + C\<bar> < 2 ^ 53" using abs pos all by linarith
  have bP: "\<bar>(0 + C) + P\<bar> < 2 ^ 53" using abs pos all by linarith
  have bF: "\<bar>((0 + C) + P) + F\<bar> < 2 ^ 53" using abs pos all by linarith
  have bR: "\<bar>(((0 + C) + P) + F) + R\<bar> < 2 ^ 53" using abs pos all by linarith
  have "js_add (js_add (js_add (js_add (Fin (of_int 0)) (Fin (of_int C))) (Fin (of_int P)))
          (Fin (of_int F))) (Fin (of_int R)) = Fin (of_int ((((0 + C) + P) + F) + R))"
    by (simp only: js_add_int [OF bC] js_add_int [OF bP] js_add_int [OF bF] js_add_int [OF bR])
  moreover have "(((0 + C) + P) + F) + R = sum_list (map ?v ps)"
    using partv unfolding C_def P_def F_def R_def by simp
  ultimately show ?thesis
    unfolding sub tot C_def P_def F_def R_def by simp
qed

text \<open>
  Claim C8 asks that the per-status sums over the four statuses add up to the total of every
  filtered collection. The mapping lower-cases whatever status the API sends, so a record
  with the status \<^verbatim>\<open>CANCELLED\<close> is counted in the total and in none of the four sums.
  The sums are sums of doubles, taken in different orders, so they also differ by rounding:
  with the amounts \<^verbatim>\<open>1\<close> (completed), \<^verbatim>\<open>9007199254740992\<close> (pending) and \<^verbatim>\<open>1\<close>
  (completed) the total is \<^verbatim>\<open>9007199254740992\<close> and the per-status sums add up to
  \<^verbatim>\<open>9007199254740994\<close>; with \<^verbatim>\<open>0.5\<close>, \<^verbatim>\<open>4503599627370496\<close> and \<^verbatim>\<open>0.5\<close> the total is
  \<^verbatim>\<open>4503599627370496\<close> and the per-status sums add up to \<^verbatim>\<open>4503599627370497\<close>.
\<close>

theorem amountByStatus_partition_counterexample:
  "amountOverStatuses
     (runP initialP (fetchPayments sampleHost (paymentsReply [rawPayment ''5'' ''CANCELLED'']))) =
   Fin 0 \<and>
   totalAmount
     (runP initialP (fetchPayments sampleHost (paymentsReply [rawPayment ''5'' ''CANCELLED'']))) =
   Fin 5 \<and>
   amountOverStatuses
     (runP initialP (fetchPayments sampleHost (paymentsReply
        [rawPayment ''1'' ''COMPLETED'', rawPayment ''9007199254740992'' ''PENDING'',
         rawPayment ''1'' ''COMPLETED'']))) =
   Fin 9007199254740994 \<and>
   totalAmount
     (runP initialP (fetchPayments sampleHost (paymentsReply
        [rawPayment ''1'' ''COMPLETED'', rawPayment ''9007199254740992'' ''PENDING'',
         rawPayment ''1'' ''COMPLETED'']))) =
   Fin 9007199254740992 \<and>
   amountOverStatuses
     (runP initialP (fetchPayments sampleHost (paymentsReply
        [rawPayment ''0.5'' ''COMPLETED'', rawPayment ''4503599627370496'' ''PENDING'',
         rawPayment ''0.5'' ''COMPLETED'']))) =
   Fin 4503599627370497 \<and>
   totalAmount
     (runP initialP (fetchPayments sampleHost (paymentsReply
        [rawPayment ''0.5'' ''COMPLETED'', rawPayment ''4503599627370496'' ''PENDING'',
         rawPayment ''0.5'' ''COMPLETED'']))) =
   Fin 4503599627370496"
  by (simp add: fetchPayments_rules paymentsReply_def reply_def rawPayment_def mapPayment_def
        parseFloat_rules initialP_def string_rules amountOverStatuses_def amountByStatus_def
        totalAmount_def filteredPayments_def matchesPayment_def sumAmounts_def
        paymentStatuses_def sampleHost_def round_double_large round_double_ties)

text \<open>
  Claim C8, as the code has it. For every filtered collection in which each payment has one
  of the four statuses, each amount is an integer, and the magnitudes of the amounts add up
  to at most \<^verbatim>\<open>Number.MAX_SAFE_INTEGER\<close>, the per-status sums over the four statuses add
  up to the total. (With amounts that are not integers the additions round, and the two
  sides can differ in the last place.)
\<close>

theorem amountByStatus_partition:
  assumes "\<forall>p \<in> set (filteredPayments st). payment_status p \<in> set paymentStatuses"
    and "\<forall>p \<in> set (filteredPayments st). isInteger (payment_amount p)"
    and "sum_list (map (\<lambda>p. \<bar>finiteValue (payment_amount p)\<bar>) (filteredPayments st)) \<le>
         maxSafeInteger"
  shows "amountOverStatuses st = totalAmount st"
  using amounts_partition_int [OF assms]
  by (simp add: amountOverStatuses_def totalAmount_def amountByStatus_def paymentStatuses_def)

theorem amountByStatus_partition_witness:
  "map payment_status
     (filteredPayments
        (runP initialP
           (fetchPayments sampleHost
              (paymentsReply [rawPayment ''10'' ''COMPLETED'', rawPayment ''2'' ''PENDING'',
                              rawPayment ''4'' ''REFUNDED''])))) =
   [''completed'', ''pending'', ''refunded''] \<and>
   map payment_amount
     (filteredPayments
        (runP initialP
           (fetchPayments sampleHost
              (paymentsReply [rawPayment ''10'' ''COMPLETED'', rawPayment ''2'' ''PENDING'',
                              rawPayment ''4'' ''REFUNDED''])))) =
   [Fin 10, Fin 2, Fin 4] \<and>
   amountOverStatuses
     (runP initialP
        (fetchPayments sampleHost
           (paymentsReply [rawPayment ''10'' ''COMPLETED'', rawPayment ''2'' ''PENDING'',
                           rawPayment ''4'' ''REFUNDED'']))) =
   totalAmount
     (runP initialP
        (fetchPayments sampleHost
           (paymentsReply [rawPayment ''10'' ''COMPLETED'', rawPayment ''2'' ''PENDING'',
                           rawPayment ''4'' ''REFUNDED''])))"
proof -
  let ?st = "runP initialP
           (fetchPayments sampleHost
              (paymentsReply [rawPayment ''10'' ''COMPLETED'', rawPayment ''2'' ''PENDING'',
                              rawPayment ''4'' ''REFUNDED'']))"
  have f: "map payment_status (filteredPayments ?st) = [''completed'', ''pending'', ''refunded'']"
    by (simp add: fetchPayments_rules paymentsReply_def reply_def rawPayment_def mapPayment_def
          initialP_def string_rules filteredPayments_def matchesPayment_def sampleHost_def)
  have a: "map payment_amount (filteredPayments ?st) = [Fin 10, Fin 2, Fin 4]"
    by (simp add: fetchPayments_rules paymentsReply_def reply_def rawPayment_def mapPayment_def
          initialP_def string_rules filteredPayments_def matchesPayment_def sampleHost_def
          parseFloat_rules)
  have "set (map payment_status (filteredPayments ?st)) \<subseteq> set paymentStatuses"
    unfolding f by (simp add: paymentStatuses_def)
  then have h1: "\<forall>p \<in> set (filteredPayments ?st). payment_status p \<in> set paymentStatuses"
    by auto
  have "\<forall>x \<in> set (map payment_amount (filteredPayments ?st)). isInteger x"
    unfolding a by (simp add: isInteger_def)
  then have h2: "\<forall>p \<in> set (filteredPayments ?st). isInteger (payment_amount p)"
    by simp
  have "sum_list (map (\<lambda>x. \<bar>finiteValue x\<bar>) (map payment_amount (filteredPayments ?st))) \<le>
        maxSafeInteger"
    unfolding a by (simp add: finiteValue_def maxSafeInteger_def)
  then have h3: "sum_list (map (\<lambda>p. \<bar>finiteValue (payment_amount p)\<bar>) (filteredPayments ?st)) \<le>
        maxSafeInteger"
    by (simp add: comp_def)
  from amountByStatus_partition [OF h1 h2 h3] f a show ?thesis by simp
qed

section \<open>The list fetches\<close>

text \<open>
  Claim C2 asks that a list fetch answered 401 with the body message \<^verbatim>\<open>token expired\<close> end
  with that message as its error. The list fetch of the payment screen does not read the
  body of a failed response.
\<close>

theorem list_fetch_message_counterexample:
  "error (runP initialP (fetchPayments sampleHost (tokenExpired :: request \<Rightarrow> (api_payment list) outcome))) =
     Some ''HTTP error! status: 401''"
  by (simp add: fetchPayments_rules tokenExpired_def reply_def string_of_nat.simps)

text \<open>
  Claim C2, as the code has it. A list fetch answered with a status outside 200..299 ends
  with a generic error whatever the body says: the text \<^verbatim>\<open>HTTP error! status: \<close> followed
  by the status code for payments and users, with or without a stored token, and
  \<^verbatim>\<open>Failed to fetch invoices.\<close> for invoices (which make their request only with a token,
  and for which a 304 is no error at all).
\<close>

theorem list_fetch_error_is_generic:
  "(netp (paymentsListRequest h) = Resolved rp \<and> \<not> ok rp \<longrightarrow>
      error (runP stp (fetchPayments h netp)) =
        Some (''HTTP error! status: '' @ string_of_nat (status rp))) \<and>
   (netu (usersListRequest h stu) = Resolved ru \<and> \<not> ok ru \<longrightarrow>
      u_error (runU stu (fetchUsers h netu stu)) =
        Some (''HTTP error! status: '' @ string_of_nat (status ru))) \<and>
   (\<not> falsy (token h) \<and> neti (invoicesListRequest h) = Resolved ri \<and> \<not> ok ri \<and>
    status ri \<noteq> 304 \<longrightarrow>
      i_error (runI sti (fetchInvoices h neti)) = Some ''Failed to fetch invoices.'')"
  by (simp add: runP_def fetchPayments_def fetchPayments_sync_def fetchPayments_cont_def
      runU_def fetchUsers_def fetchUsers_sync_def fetchUsers_cont_def
      runI_def fetchInvoices_def fetchInvoices_sync_def fetchInvoices_cont_def
      fetchInvoices_rest_def showToast_def)

theorem list_fetch_error_is_generic_witness:
  "error (runP initialP
            (fetchPayments noTokenHost
               (tokenExpired :: request \<Rightarrow> (api_payment list) outcome))) =
     Some ''HTTP error! status: 401'' \<and>
   u_error (runU initialU (fetchUsers noTokenHost tokenExpired initialU)) =
     Some ''HTTP error! status: 401'' \<and>
   i_error (runI initialI (fetchInvoices sampleHost tokenExpired)) =
     Some ''Failed to fetch invoices.''"
proof -
  have s: "string_of_nat 401 = ''401''" by (simp add: string_of_nat.simps)
  have t: "\<not> falsy (token sampleHost)" by (simp add: falsy_def sampleHost_def)
  have p: "(tokenExpired :: request \<Rightarrow> (api_payment list) outcome)
             (paymentsListRequest noTokenHost) =
      Resolved \<lparr> status = 401, statusText = [], json = Json (Some ''token expired'') None \<rparr>"
    by (simp add: tokenExpired_def reply_def)
  have u: "(tokenExpired :: request \<Rightarrow> (user list) outcome)
             (usersListRequest noTokenHost initialU) =
      Resolved \<lparr> status = 401, statusText = [], json = Json (Some ''token expired'') None \<rparr>"
    by (simp add: tokenExpired_def reply_def)
  have i: "(tokenExpired :: request \<Rightarrow> (invoice list) outcome) (invoicesListRequest sampleHost) =
      Resolved \<lparr> status = 401, statusText = [], json = Json (Some ''token expired'') None \<rparr>"
    by (simp add: tokenExpired_def reply_def)
  have n: "\<not> ok \<lparr> status = 401, statusText = [], json = j \<rparr>" for j :: "'d json"
    by (simp add: ok_def)
  note a = list_fetch_error_is_generic
         [where netp = "tokenExpired :: request \<Rightarrow> (api_payment list) outcome"
            and netu = tokenExpired and h = noTokenHost and stu = initialU and stp = initialP
            and rp = "\<lparr> status = 401, statusText = [], json = Json (Some ''token expired'') None \<rparr>"
            and ru = "\<lparr> status = 401, statusText = [], json = Json (Some ''token expired'') None \<rparr>"]
  note b = list_fetch_error_is_generic
         [where neti = tokenExpired and h = sampleHost and sti = initialI
            and ri = "\<lparr> status = 401, statusText = [], json = Json (Some ''token expired'') None \<rparr>"]
  have 1: "error (runP initialP (fetchPayments noTokenHost
               (tokenExpired :: request \<Rightarrow> (api_payment list) outcome))) =
     Some ''HTTP error! status: 401''"
    using a [THEN conjunct1, THEN mp, OF conjI [OF p n]] by (simp add: s)
  have 2: "u_error (runU initialU (fetchUsers noTokenHost tokenExpired initialU)) =
     Some ''HTTP error! status: 401''"
    using a [THEN conjunct2, THEN conjunct1, THEN mp, OF conjI [OF u n]] by (simp add: s)
  have c: "status \<lparr> status = 401, statusText = [],
                    json = Json (Some ''token expired'') None :: (invoice list) json \<rparr> \<noteq> 304"
    by simp
  have 3: "i_error (runI initialI (fetchInvoices sampleHost tokenExpired)) =
     Some ''Failed to fetch invoices.''"
    using b [THEN conjunct2, THEN conjunct2, THEN mp, OF conjI [OF t conjI [OF i conjI [OF n c]]]]
    by simp
  from 1 2 3 show ?thesis by (intro conjI)
qed

text \<open>The invoice list keeps what it has on a 304: only the loading flag is reset.\<close>

lemma fetchInvoices_not_modified:
  assumes "status r = 304"
  shows "runI st (fetchInvoices_cont (Resolved r)) = st\<lparr>i_loading := False\<rparr>"
  using assms by (simp add: runI_def fetchInvoices_cont_def)

text \<open>
  Claim C3: a list fetch answered 304 leaves the stored collection unchanged and does not
  end in the error state. The payment list treats the 304 as a failure (the collection is
  kept, the error is set); the user list sets the error and empties the collection.
\<close>

theorem fetchPayments_not_modified_is_error:
  "error (runP loadedP (fetchPayments sampleHost (notModified :: request \<Rightarrow> (api_payment list) outcome))) =
     Some ''HTTP error! status: 304'' \<and>
   payments (runP loadedP (fetchPayments sampleHost (notModified :: request \<Rightarrow> (api_payment list) outcome))) =
     payments loadedP \<and>
   u_error (runU loadedU (fetchUsers sampleHost notModified loadedU)) = Some ''HTTP error! status: 304'' \<and>
   users loadedU = Some [sampleUser] \<and>
   users (runU loadedU (fetchUsers sampleHost notModified loadedU)) = Some []"
  by (simp add: fetchPayments_rules fetchUsers_rules notModified_def reply_def string_of_nat.simps loadedU_def  initialU_def)

text \<open>Without a token the invoice list makes no request and reports the missing token.\<close>

lemma fetchInvoices_without_token:
  assumes "falsy (token h)"
  shows "requestsI (fetchInvoices h net) = [] \<and>
         i_error (runI st (fetchInvoices h net)) = Some ''No authentication token found.''"
  using assms by (simp add: runI_def fetchInvoices_def fetchInvoices_sync_def fetchInvoices_rest_def showToast_def)

text \<open>
  The payment and user operations make their request whatever the token is, and put it into
  the header as it is.
\<close>

lemma payment_user_requests_ignore_token:
  "requestsP (fetchPayments_sync h) = [paymentsListRequest h]"
  "req_authorization (paymentsListRequest h) = bearer (token h)"
  "requestsU (fetchUsers_sync h stu) = [usersListRequest h stu]"
  "req_authorization (usersListRequest h stu) = bearer (token h)"
  "requestsU (handleAddUser_sync h stu) = [addUserRequest h stu]"
  "req_authorization (addUserRequest h stu) = bearer (token h)"
  "req_authorization (createPaymentRequest h stp d) = bearer (token h)"
  "req_authorization (updatePaymentRequest h p) = bearer (token h)"
  "req_authorization (deletePaymentRequest h p) = bearer (token h)"
  "req_authorization (updateUserRequest h stu u) = bearer (token h)"
  "req_authorization (deleteUserRequest h u) = bearer (token h)"
  by (simp_all add: fetchPayments_sync_def paymentsListRequest_def fetchUsers_sync_def
      usersListRequest_def handleAddUser_sync_def addUserRequest_def createPaymentRequest_def
      updatePaymentRequest_def deletePaymentRequest_def updateUserRequest_def
      deleteUserRequest_def)

text \<open>
  Claim C6: with no credential stored, an operation fails as unauthenticated before any
  request is made. The payment and user lists make their request all the same, with the
  header \<^verbatim>\<open>Authorization: Bearer null\<close>.
\<close>

theorem fetchPayments_without_token_requests:
  "token noTokenHost = None \<and>
   requestsP (fetchPayments_sync noTokenHost) = [paymentsListRequest noTokenHost] \<and>
   req_authorization (paymentsListRequest noTokenHost) = ''Bearer null'' \<and>
   requestsU (fetchUsers_sync noTokenHost initialU) = [usersListRequest noTokenHost initialU] \<and>
   req_authorization (usersListRequest noTokenHost initialU) = ''Bearer null''"
  by (simp add: noTokenHost_def sampleHost_def fetchPayments_sync_def paymentsListRequest_def bearer_def
      fetchUsers_sync_def usersListRequest_def)

section \<open>The mutations\<close>

lemma runP_steps:
  "runP st [] = st"
  "runP st (e # es) = runP (applyP st e) es"
  "runP st (xs @ ys) = runP (runP st xs) ys"
  by (simp_all add: runP_def)

lemma runU_steps:
  "runU st [] = st"
  "runU st (e # es) = runU (applyU st e) es"
  "runU st (xs @ ys) = runU (runU st xs) ys"
  by (simp_all add: runU_def)

lemma runI_steps:
  "runI st [] = st"
  "runI st (e # es) = runI (applyI st e) es"
  "runI st (xs @ ys) = runI (runI st xs) ys"
  by (simp_all add: runI_def)

lemma requestsP_append: "requestsP (xs @ ys) = requestsP xs @ requestsP ys"
  by (induction xs rule: requestsP.induct) simp_all
lemma requestsU_append: "requestsU (xs @ ys) = requestsU xs @ requestsU ys"
  by (induction xs rule: requestsU.induct) simp_all
lemma requestsI_append: "requestsI (xs @ ys) = requestsI xs @ requestsI ys"
  by (induction xs rule: requestsI.induct) simp_all


text \<open>
  What follows the answer to a list request makes no request, and touches neither a modal
  nor a form.
\<close>

lemma fetchPayments_cont_keeps:
  "requestsP (fetchPayments_cont h out) = []"
  "showCreateModal (runP st (fetchPayments_cont h out)) = showCreateModal st"
  "showUpdateModal (runP st (fetchPayments_cont h out)) = showUpdateModal st"
  "showDeleteModal (runP st (fetchPayments_cont h out)) = showDeleteModal st"
  "newPayment (runP st (fetchPayments_cont h out)) = newPayment st"
  "editingPayment (runP st (fetchPayments_cont h out)) = editingPayment st"
  "selectedPayment (runP st (fetchPayments_cont h out)) = selectedPayment st"
  by (simp_all add: runP_def fetchPayments_cont_def split: outcome.split json.split option.split)

lemma fetchUsers_cont_keeps:
  "requestsU (fetchUsers_cont out) = []"
  "u_showCreateModal (runU st (fetchUsers_cont out)) = u_showCreateModal st"
  "showEditModal (runU st (fetchUsers_cont out)) = showEditModal st"
  "u_showDeleteModal (runU st (fetchUsers_cont out)) = u_showDeleteModal st"
  "newUserName (runU st (fetchUsers_cont out)) = newUserName st"
  "newUserEmail (runU st (fetchUsers_cont out)) = newUserEmail st"
  "newUserPassword (runU st (fetchUsers_cont out)) = newUserPassword st"
  "newUserRole (runU st (fetchUsers_cont out)) = newUserRole st"
  "editingUser (runU st (fetchUsers_cont out)) = editingUser st"
  "editUserName (runU st (fetchUsers_cont out)) = editUserName st"
  "editUserEmail (runU st (fetchUsers_cont out)) = editUserEmail st"
  "editUserRole (runU st (fetchUsers_cont out)) = editUserRole st"
  "userToDelete (runU st (fetchUsers_cont out)) = userToDelete st"
  by (simp_all add: runU_def fetchUsers_cont_def split: outcome.split json.split)

lemma fetchInvoices_cont_keeps:
  "requestsI (fetchInvoices_cont out) = []"
  "showModal (runI st (fetchInvoices_cont out)) = showModal st"
  "editingInvoice (runI st (fetchInvoices_cont out)) = editingInvoice st"
  "showConfirmModal (runI st (fetchInvoices_cont out)) = showConfirmModal st"
  by (simp_all add: runI_def fetchInvoices_cont_def showToast_def
      split: outcome.split json.split)

lemma succeeded_paymentFailure: "succeeded out \<Longrightarrow> paymentFailure out = None"
  by (simp add: succeeded_def paymentFailure_def split: outcome.splits)

lemma succeeded_userFailure: "succeeded out \<Longrightarrow> userFailure w out = None"
  by (auto simp: succeeded_def userFailure_def split: outcome.splits)

lemma succeeded_saveInvoiceFailure: "succeeded out \<Longrightarrow> saveInvoiceFailure e out = None"
  by (simp add: succeeded_def saveInvoiceFailure_def split: outcome.splits)


text \<open>The events of the payment mutations after a successful response, and the state they leave.\<close>

lemma payment_mutations_success:
  assumes "succeeded out"
  shows "handleCreatePayment_cont h net out =
           [SetShowCreateModal False, SetNewPayment resetNewPayment,
            SetLoading True, SetError None, Fetch (paymentsListRequest h)] @
           fetchPayments_cont h (net (paymentsListRequest h)) @ [SetIsSubmitting False]"
    and "requestsP (handleCreatePayment_cont h net out) = [paymentsListRequest h]"
    and "\<not> showCreateModal (runP st (handleCreatePayment_cont h net out))"
    and "newPayment (runP st (handleCreatePayment_cont h net out)) = resetNewPayment"
    and "handleUpdatePayment_cont h net out =
           [SetShowUpdateModal False, SetEditingPayment None,
            SetLoading True, SetError None, Fetch (paymentsListRequest h)] @
           fetchPayments_cont h (net (paymentsListRequest h)) @ [SetIsSubmitting False]"
    and "requestsP (handleUpdatePayment_cont h net out) = [paymentsListRequest h]"
    and "\<not> showUpdateModal (runP st (handleUpdatePayment_cont h net out))"
    and "editingPayment (runP st (handleUpdatePayment_cont h net out)) = None"
    and "handleDeletePayment_cont h net out =
           [SetShowDeleteModal False, SetSelectedPayment None,
            SetLoading True, SetError None, Fetch (paymentsListRequest h)] @
           fetchPayments_cont h (net (paymentsListRequest h)) @ [SetIsSubmitting False]"
    and "requestsP (handleDeletePayment_cont h net out) = [paymentsListRequest h]"
    and "\<not> showDeleteModal (runP st (handleDeletePayment_cont h net out))"
    and "selectedPayment (runP st (handleDeletePayment_cont h net out)) = None"
  using succeeded_paymentFailure [OF assms]
  by (simp_all add: handleCreatePayment_cont_def handleUpdatePayment_cont_def
      handleDeletePayment_cont_def fetchPayments_def fetchPayments_sync_def
      requestsP_append runP_steps fetchPayments_cont_keeps)

text \<open>The same for the user mutations.\<close>

lemma user_mutations_success:
  assumes "succeeded out"
  shows "handleAddUser_cont h net stc out =
           [SetIsLoading True, USetError None, UFetch (usersListRequest h stc),
            SetNewUserName [], SetNewUserEmail [], SetNewUserPassword [],
            SetNewUserRole ''accountant'', USetShowCreateModal False, SetIsAddingUser False] @
           fetchUsers_cont (net (usersListRequest h stc))"
    and "requestsU (handleAddUser_cont h net stc out) = [usersListRequest h stc]"
    and "\<not> u_showCreateModal (runU st (handleAddUser_cont h net stc out))"
    and "newUserName (runU st (handleAddUser_cont h net stc out)) = []"
    and "newUserEmail (runU st (handleAddUser_cont h net stc out)) = []"
    and "newUserPassword (runU st (handleAddUser_cont h net stc out)) = []"
    and "newUserRole (runU st (handleAddUser_cont h net stc out)) = ''accountant''"
    and "handleUpdateUser_cont h net stc out =
           [SetIsLoading True, USetError None, UFetch (usersListRequest h stc),
            SetEditingUser None, SetEditUserName [], SetEditUserEmail [],
            SetEditUserRole ''accountant'', SetShowEditModal False, SetIsUpdatingUser False] @
           fetchUsers_cont (net (usersListRequest h stc))"
    and "requestsU (handleUpdateUser_cont h net stc out) = [usersListRequest h stc]"
    and "\<not> showEditModal (runU st (handleUpdateUser_cont h net stc out))"
    and "editingUser (runU st (handleUpdateUser_cont h net stc out)) = None"
    and "editUserName (runU st (handleUpdateUser_cont h net stc out)) = []"
    and "editUserEmail (runU st (handleUpdateUser_cont h net stc out)) = []"
    and "editUserRole (runU st (handleUpdateUser_cont h net stc out)) = ''accountant''"
    and "handleDeleteUser_cont h net stc out =
           [SetIsLoading True, USetError None, UFetch (usersListRequest h stc),
            SetUserToDelete None, USetShowDeleteModal False, SetIsDeleting False] @
           fetchUsers_cont (net (usersListRequest h stc))"
    and "requestsU (handleDeleteUser_cont h net stc out) = [usersListRequest h stc]"
    and "\<not> u_showDeleteModal (runU st (handleDeleteUser_cont h net stc out))"
    and "userToDelete (runU st (handleDeleteUser_cont h net stc out)) = None"
  using succeeded_userFailure [OF assms]
  by (simp_all add: handleAddUser_cont_def handleUpdateUser_cont_def handleDeleteUser_cont_def
      fetchUsers_sync_def requestsU_append runU_steps fetchUsers_cont_keeps)

text \<open>The same for the invoice mutations, which are made only with a token.\<close>

lemma invoice_mutations_success:
  assumes "succeeded out" and "\<not> falsy (token h)"
  shows "handleSaveInvoice_cont h net initialInvoice out =
           [ISetLoading True, ISetError None, IFetch (invoicesListRequest h),
            SetToastMessage
              (Some (''Invoice '' @ (if initialInvoice \<noteq> None then ''updated'' else ''created'') @
                     '' successfully!'')),
            SetToastType ToastSuccess, SetShowModal False, SetEditingInvoice None,
            MSetLoading False] @
           fetchInvoices_cont (net (invoicesListRequest h))"
    and "requestsI (handleSaveInvoice_cont h net initialInvoice out) = [invoicesListRequest h]"
    and "\<not> showModal (runI st (handleSaveInvoice_cont h net initialInvoice out))"
    and "editingInvoice (runI st (handleSaveInvoice_cont h net initialInvoice out)) = None"
    and "confirmDelete_cont h net out =
           [ISetLoading True, ISetError None, IFetch (invoicesListRequest h),
            SetShowConfirmModal False, SetToastMessage (Some ''Invoice deleted successfully!''),
            SetToastType ToastDeletion] @
           fetchInvoices_cont (net (invoicesListRequest h))"
    and "requestsI (confirmDelete_cont h net out) = [invoicesListRequest h]"
    and "\<not> showConfirmModal (runI st (confirmDelete_cont h net out))"
proof -
  from assms(1) obtain r where out: "out = Resolved r" "ok r"
    by (cases out) (simp_all add: succeeded_def)
  have s: "saveInvoiceFailure e (Resolved r) = None" for e
    using succeeded_saveInvoiceFailure [OF assms(1)] by (simp add: out(1))
  note rules = handleSaveInvoice_cont_def s handleInvoiceSaved_def handleModalClose_def
    confirmDelete_cont_def out fetchInvoices_sync_def fetchInvoices_rest_def showToast_def
    assms(2) requestsI_append runI_steps fetchInvoices_cont_keeps
  show "handleSaveInvoice_cont h net initialInvoice out =
           [ISetLoading True, ISetError None, IFetch (invoicesListRequest h),
            SetToastMessage
              (Some (''Invoice '' @ (if initialInvoice \<noteq> None then ''updated'' else ''created'') @
                     '' successfully!'')),
            SetToastType ToastSuccess, SetShowModal False, SetEditingInvoice None,
            MSetLoading False] @
           fetchInvoices_cont (net (invoicesListRequest h))"
    by (simp add: rules)
  show "requestsI (handleSaveInvoice_cont h net initialInvoice out) = [invoicesListRequest h]"
    by (simp add: rules)
  show "\<not> showModal (runI st (handleSaveInvoice_cont h net initialInvoice out))"
    by (simp add: rules)
  show "editingInvoice (runI st (handleSaveInvoice_cont h net initialInvoice out)) = None"
    by (simp add: rules)
  show "confirmDelete_cont h net out =
           [ISetLoading True, ISetError None, IFetch (invoicesListRequest h),
            SetShowConfirmModal False, SetToastMessage (Some ''Invoice deleted successfully!''),
            SetToastType ToastDeletion] @
           fetchInvoices_cont (net (invoicesListRequest h))"
    by (simp add: rules)
  show "requestsI (confirmDelete_cont h net out) = [invoicesListRequest h]"
    by (simp add: rules)
  show "\<not> showConfirmModal (runI st (confirmDelete_cont h net out))"
    by (simp add: rules)
qed

text \<open>
  Claim C4 asks that a successful mutation close the modal, clear the form, refetch the list
  once and emit a success notification, in this order. Recording a payment closes, clears
  and refetches, and no event of it notifies anybody; creating an invoice starts the
  refetch and shows its toast before it closes the modal.
\<close>

theorem mutation_success_effects_counterexample:
  "handleCreatePayment sampleHost listOk filledP =
     [SetIsSubmitting True, SetSubmitError None,
      Fetch (createPaymentRequest sampleHost filledP ''2025-01-01T00:00:00.000Z''),
      SetShowCreateModal False, SetNewPayment resetNewPayment,
      SetLoading True, SetError None, Fetch (paymentsListRequest sampleHost),
      SetPayments [], SetLoading False, SetIsSubmitting False] \<and>
   handleSaveInvoice sampleHost listOk None filledM =
     [MSetLoading True, MSetError None,
      IFetch (saveInvoiceRequest sampleHost None filledM ''2025-01-01T00:00:00.000Z''),
      ISetLoading True, ISetError None, IFetch (invoicesListRequest sampleHost),
      SetToastMessage (Some ''Invoice created successfully!''), SetToastType ToastSuccess,
      SetShowModal False, SetEditingInvoice None, MSetLoading False,
      SetInvoices (Some []), ISetLoading False]"
  by (simp add: handleCreatePayment_def handleCreatePayment_sync_def handleCreatePayment_cont_def
      paymentFailure_def fetchPayments_def fetchPayments_sync_def fetchPayments_cont_def
      listOk_def reply_def ok_def filledP_def initialP_def sampleHost_def
      handleSaveInvoice_def handleSaveInvoice_sync_def handleSaveInvoice_cont_def
      saveInvoiceBlocked_def saveInvoiceFailure_def filledM_def trim_def parseFloat_rules
      falsy_def handleInvoiceSaved_def handleModalClose_def
      fetchInvoices_sync_def fetchInvoices_rest_def fetchInvoices_cont_def showToast_def)

text \<open>
  Claim C4, as the code has it. After a successful response every mutation closes its own
  modal and makes exactly one request, the list request of its collection. A payment
  mutation closes its modal, resets its form (or drops its selection), then refetches; a user
  mutation refetches, resets its form (or drops its selection), then closes its modal; an
  invoice save refetches, shows the success toast, then closes the modal and drops the
  edited invoice; an invoice deletion refetches, closes the confirmation, then shows its
  toast. Each conjunct gives the events in order, up to what follows the answer to the list
  request, and the state of the modal and the form afterwards. The invoice mutations are
  made only with a token.
\<close>

theorem mutation_success_effects:
  assumes "succeeded outp" and "succeeded outu" and "succeeded outi"
  shows "handleCreatePayment_cont h netp outp =
           [SetShowCreateModal False, SetNewPayment resetNewPayment,
            SetLoading True, SetError None, Fetch (paymentsListRequest h)] @
           fetchPayments_cont h (netp (paymentsListRequest h)) @ [SetIsSubmitting False] \<and>
         requestsP (handleCreatePayment_cont h netp outp) = [paymentsListRequest h] \<and>
         \<not> showCreateModal (runP stp (handleCreatePayment_cont h netp outp)) \<and>
         newPayment (runP stp (handleCreatePayment_cont h netp outp)) = resetNewPayment \<and>
         handleUpdatePayment_cont h netp outp =
           [SetShowUpdateModal False, SetEditingPayment None,
            SetLoading True, SetError None, Fetch (paymentsListRequest h)] @
           fetchPayments_cont h (netp (paymentsListRequest h)) @ [SetIsSubmitting False] \<and>
         requestsP (handleUpdatePayment_cont h netp outp) = [paymentsListRequest h] \<and>
         \<not> showUpdateModal (runP stp (handleUpdatePayment_cont h netp outp)) \<and>
         editingPayment (runP stp (handleUpdatePayment_cont h netp outp)) = None \<and>
         handleDeletePayment_cont h netp outp =
           [SetShowDeleteModal False, SetSelectedPayment None,
            SetLoading True, SetError None, Fetch (paymentsListRequest h)] @
           fetchPayments_cont h (netp (paymentsListRequest h)) @ [SetIsSubmitting False] \<and>
         requestsP (handleDeletePayment_cont h netp outp) = [paymentsListRequest h] \<and>
         \<not> showDeleteModal (runP stp (handleDeletePayment_cont h netp outp)) \<and>
         selectedPayment (runP stp (handleDeletePayment_cont h netp outp)) = None \<and>
         handleAddUser_cont h netu stc outu =
           [SetIsLoading True, USetError None, UFetch (usersListRequest h stc),
            SetNewUserName [], SetNewUserEmail [], SetNewUserPassword [],
            SetNewUserRole ''accountant'', USetShowCreateModal False, SetIsAddingUser False] @
           fetchUsers_cont (netu (usersListRequest h stc)) \<and>
         requestsU (handleAddUser_cont h netu stc outu) = [usersListRequest h stc] \<and>
         \<not> u_showCreateModal (runU stu (handleAddUser_cont h netu stc outu)) \<and>
         newUserName (runU stu (handleAddUser_cont h netu stc outu)) = [] \<and>
         newUserEmail (runU stu (handleAddUser_cont h netu stc outu)) = [] \<and>
         newUserPassword (runU stu (handleAddUser_cont h netu stc outu)) = [] \<and>
         newUserRole (runU stu (handleAddUser_cont h netu stc outu)) = ''accountant'' \<and>
         handleUpdateUser_cont h netu stc outu =
           [SetIsLoading True, USetError None, UFetch (usersListRequest h stc),
            SetEditingUser None, SetEditUserName [], SetEditUserEmail [],
            SetEditUserRole ''accountant'', SetShowEditModal False, SetIsUpdatingUser False] @
           fetchUsers_cont (netu (usersListRequest h stc)) \<and>
         requestsU (handleUpdateUser_cont h netu stc outu) = [usersListRequest h stc] \<and>
         \<not> showEditModal (runU stu (handleUpdateUser_cont h netu stc outu)) \<and>
         editingUser (runU stu (handleUpdateUser_cont h netu stc outu)) = None \<and>
         editUserName (runU stu (handleUpdateUser_cont h netu stc outu)) = [] \<and>
         editUserEmail (runU stu (handleUpdateUser_cont h netu stc outu)) = [] \<and>
         editUserRole (runU stu (handleUpdateUser_cont h netu stc outu)) = ''accountant'' \<and>
         handleDeleteUser_cont h netu stc outu =
           [SetIsLoading True, USetError None, UFetch (usersListRequest h stc),
            SetUserToDelete None, USetShowDeleteModal False, SetIsDeleting False] @
           fetchUsers_cont (netu (usersListRequest h stc)) \<and>
         requestsU (handleDeleteUser_cont h netu stc outu) = [usersListRequest h stc] \<and>
         \<not> u_showDeleteModal (runU stu (handleDeleteUser_cont h netu stc outu)) \<and>
         userToDelete (runU stu (handleDeleteUser_cont h netu stc outu)) = None \<and>
         (\<not> falsy (token h) \<longrightarrow>
            handleSaveInvoice_cont h neti initialInvoice outi =
              [ISetLoading True, ISetError None, IFetch (invoicesListRequest h),
               SetToastMessage
                 (Some (''Invoice '' @ (if initialInvoice \<noteq> None then ''updated'' else ''created'') @
                        '' successfully!'')),
               SetToastType ToastSuccess, SetShowModal False, SetEditingInvoice None,
               MSetLoading False] @
              fetchInvoices_cont (neti (invoicesListRequest h)) \<and>
            requestsI (handleSaveInvoice_cont h neti initialInvoice outi) = [invoicesListRequest h] \<and>
            \<not> showModal (runI sti (handleSaveInvoice_cont h neti initialInvoice outi)) \<and>
            editingInvoice (runI sti (handleSaveInvoice_cont h neti initialInvoice outi)) = None \<and>
            confirmDelete_cont h neti outi =
              [ISetLoading True, ISetError None, IFetch (invoicesListRequest h),
               SetShowConfirmModal False, SetToastMessage (Some ''Invoice deleted successfully!''),
               SetToastType ToastDeletion] @
              fetchInvoices_cont (neti (invoicesListRequest h)) \<and>
            requestsI (confirmDelete_cont h neti outi) = [invoicesListRequest h] \<and>
            \<not> showConfirmModal (runI sti (confirmDelete_cont h neti outi)))"
  by (intro conjI impI;
      (rule payment_mutations_success [OF assms(1)] user_mutations_success [OF assms(2)]
       | (rule invoice_mutations_success [OF assms(3)], assumption)))

theorem mutation_success_effects_witness:
  "handleCreatePayment_cont sampleHost listOk
     (listOk (createPaymentRequest sampleHost filledP ''d'') :: (api_payment list) outcome) =
     [SetShowCreateModal False, SetNewPayment resetNewPayment,
      SetLoading True, SetError None, Fetch (paymentsListRequest sampleHost),
      SetPayments [], SetLoading False, SetIsSubmitting False] \<and>
   \<not> showCreateModal
       (runP filledP
          (handleCreatePayment_cont sampleHost listOk
             (listOk (createPaymentRequest sampleHost filledP ''d'') ::
                (api_payment list) outcome))) \<and>
   newPayment
     (runP filledP
        (handleCreatePayment_cont sampleHost listOk
           (listOk (createPaymentRequest sampleHost filledP ''d'') ::
              (api_payment list) outcome))) = resetNewPayment \<and>
   requestsU (handleAddUser_cont sampleHost listOk initialU
                (listOk (addUserRequest sampleHost initialU))) =
     [usersListRequest sampleHost initialU] \<and>
   handleSaveInvoice_cont sampleHost listOk None (listOk (invoicesListRequest sampleHost)) =
     [ISetLoading True, ISetError None, IFetch (invoicesListRequest sampleHost),
      SetToastMessage (Some ''Invoice created successfully!''), SetToastType ToastSuccess,
      SetShowModal False, SetEditingInvoice None, MSetLoading False,
      SetInvoices (Some []), ISetLoading False] \<and>
   \<not> showConfirmModal
       (runI confirmingI
          (confirmDelete_cont sampleHost listOk (listOk (invoicesListRequest sampleHost))))"
proof -
  have sp: "succeeded (listOk (createPaymentRequest sampleHost filledP ''d'') ::
                         (api_payment list) outcome)"
    by (simp add: succeeded_def listOk_def reply_def ok_def)
  have su: "succeeded (listOk (addUserRequest sampleHost initialU) :: (user list) outcome)"
    by (simp add: succeeded_def listOk_def reply_def ok_def)
  have si: "succeeded (listOk (invoicesListRequest sampleHost) :: (invoice list) outcome)"
    by (simp add: succeeded_def listOk_def reply_def ok_def)
  have t: "\<not> falsy (token sampleHost)" by (simp add: falsy_def sampleHost_def)
  have lp: "fetchPayments_cont sampleHost
              ((listOk :: request \<Rightarrow> (api_payment list) outcome) q) =
            [SetPayments [], SetLoading False]" for q
    by (simp add: fetchPayments_cont_def listOk_def reply_def ok_def)
  have li: "fetchInvoices_cont ((listOk :: request \<Rightarrow> (invoice list) outcome) q) =
            [SetInvoices (Some []), ISetLoading False]" for q
    by (simp add: fetchInvoices_cont_def listOk_def reply_def ok_def)
  note T = mutation_success_effects
         [where h = sampleHost
            and netp = "listOk :: request \<Rightarrow> (api_payment list) outcome"
            and netu = listOk and neti = listOk
            and stp = filledP and stu = initialU and stc = initialU and sti = confirmingI
            and initialInvoice = None, OF sp su si]
  let ?op = "listOk (createPaymentRequest sampleHost filledP ''d'') :: (api_payment list) outcome"
  from T have "handleCreatePayment_cont sampleHost listOk ?op =
           [SetShowCreateModal False, SetNewPayment resetNewPayment,
            SetLoading True, SetError None, Fetch (paymentsListRequest sampleHost)] @
           fetchPayments_cont sampleHost
             ((listOk :: request \<Rightarrow> (api_payment list) outcome)
                (paymentsListRequest sampleHost)) @
           [SetIsSubmitting False]"
    by (rule conjunct1)
  then have 1: "handleCreatePayment_cont sampleHost listOk ?op =
     [SetShowCreateModal False, SetNewPayment resetNewPayment,
      SetLoading True, SetError None, Fetch (paymentsListRequest sampleHost),
      SetPayments [], SetLoading False, SetIsSubmitting False]"
    by (simp add: lp)
  from T have 2: "\<not> showCreateModal (runP filledP (handleCreatePayment_cont sampleHost listOk ?op))"
    by blast
  from T have 3: "newPayment (runP filledP (handleCreatePayment_cont sampleHost listOk ?op)) =
      resetNewPayment"
    by blast
  from T have 4: "requestsU (handleAddUser_cont sampleHost listOk initialU
                (listOk (addUserRequest sampleHost initialU))) =
     [usersListRequest sampleHost initialU]"
    by blast
  from T t have "handleSaveInvoice_cont sampleHost listOk None
                   (listOk (invoicesListRequest sampleHost)) =
              [ISetLoading True, ISetError None, IFetch (invoicesListRequest sampleHost),
               SetToastMessage
                 (Some (''Invoice '' @ (if (None :: invoice option) \<noteq> None then ''updated''
                                        else ''created'') @ '' successfully!'')),
               SetToastType ToastSuccess, SetShowModal False, SetEditingInvoice None,
               MSetLoading False] @
              fetchInvoices_cont
                ((listOk :: request \<Rightarrow> (invoice list) outcome)
                   (invoicesListRequest sampleHost))"
    by blast
  then have 5: "handleSaveInvoice_cont sampleHost listOk None
                  (listOk (invoicesListRequest sampleHost)) =
     [ISetLoading True, ISetError None, IFetch (invoicesListRequest sampleHost),
      SetToastMessage (Some ''Invoice created successfully!''), SetToastType ToastSuccess,
      SetShowModal False, SetEditingInvoice None, MSetLoading False,
      SetInvoices (Some []), ISetLoading False]"
    by (simp add: li)
  from T t have 6: "\<not> showConfirmModal
       (runI confirmingI
          (confirmDelete_cont sampleHost listOk (listOk (invoicesListRequest sampleHost))))"
    by blast
  from 1 2 3 4 5 6 show ?thesis by (intro conjI)
qed

lemma failed_paymentFailure: "failed out \<Longrightarrow> paymentFailure out \<noteq> None"
  by (auto simp: failed_def paymentFailure_def split: outcome.splits json.splits)

lemma failed_userFailure: "failed out \<Longrightarrow> userFailure w out \<noteq> None"
  by (auto simp: failed_def userFailure_def split: outcome.splits)

lemma failed_saveInvoiceFailure: "failed out \<Longrightarrow> saveInvoiceFailure e out \<noteq> None"
  by (auto simp: failed_def saveInvoiceFailure_def split: outcome.splits json.splits)

lemma payment_mutations_failure:
  assumes "failed out"
  shows "runP st (handleCreatePayment_cont h net out) =
           st\<lparr>submitError := paymentFailure out, isSubmitting := False\<rparr>"
    and "requestsP (handleCreatePayment_cont h net out) = []"
    and "runP st (handleUpdatePayment_cont h net out) =
           st\<lparr>submitError := paymentFailure out, isSubmitting := False\<rparr>"
    and "requestsP (handleUpdatePayment_cont h net out) = []"
    and "runP st (handleDeletePayment_cont h net out) =
           st\<lparr>submitError := paymentFailure out, isSubmitting := False\<rparr>"
    and "requestsP (handleDeletePayment_cont h net out) = []"
  using failed_paymentFailure [OF assms]
  by (auto simp: runP_def handleCreatePayment_cont_def handleUpdatePayment_cont_def
      handleDeletePayment_cont_def)

lemma user_mutations_failure:
  assumes "failed out"
  shows "runU st (handleAddUser_cont h net stc out) =
           st\<lparr>addUserError := userFailure ''Failed to add user! Status: '' out,
               isAddingUser := False\<rparr>"
    and "requestsU (handleAddUser_cont h net stc out) = []"
    and "runU st (handleUpdateUser_cont h net stc out) =
           st\<lparr>updateUserError := userFailure ''Failed to update user! Status: '' out,
               isUpdatingUser := False\<rparr>"
    and "requestsU (handleUpdateUser_cont h net stc out) = []"
    and "runU st (handleDeleteUser_cont h net stc out) =
           st\<lparr>deleteError := userFailure ''Failed to delete user! Status: '' out,
               isDeleting := False\<rparr>"
    and "requestsU (handleDeleteUser_cont h net stc out) = []"
  using failed_userFailure [OF assms, of "''Failed to add user! Status: ''"]
    failed_userFailure [OF assms, of "''Failed to update user! Status: ''"]
    failed_userFailure [OF assms, of "''Failed to delete user! Status: ''"]
  by (auto simp: runU_def handleAddUser_cont_def handleUpdateUser_cont_def
      handleDeleteUser_cont_def)

lemma invoice_save_failure:
  assumes "failed out"
  shows "runM m (handleSaveInvoice_cont h net initialInvoice out) =
           m\<lparr>m_error := saveInvoiceFailure (initialInvoice \<noteq> None) out, m_loading := False\<rparr>"
    and "runI st (handleSaveInvoice_cont h net initialInvoice out) = st"
    and "requestsI (handleSaveInvoice_cont h net initialInvoice out) = []"
  using failed_saveInvoiceFailure [OF assms, of "initialInvoice \<noteq> None"]
  by (auto simp: runM_def runI_def handleSaveInvoice_cont_def)

lemma invoice_delete_failure:
  assumes "failed out"
  shows "runI st (confirmDelete_cont h net out) =
           st\<lparr>i_error := Some (case out of Rejected msg \<Rightarrow> msg
                                | Resolved r \<Rightarrow> ''Failed to delete invoice.''),
               showConfirmModal := False,
               toastMessage := Some ''Failed to delete invoice.'', toastType := ToastError\<rparr>"
    and "requestsI (confirmDelete_cont h net out) = []"
  using assms
  by (auto simp: failed_def runI_def confirmDelete_cont_def deleteInvoiceFailed_def showToast_def
      split: outcome.splits)

text \<open>
  Claim C5 asks that a failed mutation keep its modal open. A failed invoice deletion closes
  the confirmation modal.
\<close>

theorem mutation_failure_closes_confirmation_counterexample:
  "showConfirmModal confirmingI \<and>
   \<not> showConfirmModal (runI confirmingI (confirmDelete sampleHost serverError sampleInvoice))"
  by (simp add: confirmingI_def loadedI_def runI_def handleDeleteClick_def initialI_def
      confirmDelete_def
      confirmDelete_sync_def confirmDelete_cont_def deleteInvoiceFailed_def showToast_def
      serverError_def reply_def ok_def falsy_def sampleHost_def)

text \<open>
  Claim C5, as the code has it. A failed payment or user mutation and a failed invoice save
  change nothing but the error of the action, set from the failure, and its submitting flag,
  reset: the modal stays open, the form is untouched, and no request follows. A failed
  invoice deletion makes no request either, but it sets the error of the page, closes the
  confirmation modal and shows an error toast.
\<close>

theorem mutation_failure_keeps_form:
  assumes "failed outp" and "failed outu" and "failed outi"
  shows "paymentFailure outp \<noteq> None \<and>
         runP stp (handleCreatePayment_cont h netp outp) =
           stp\<lparr>submitError := paymentFailure outp, isSubmitting := False\<rparr> \<and>
         requestsP (handleCreatePayment_cont h netp outp) = [] \<and>
         runP stp (handleUpdatePayment_cont h netp outp) =
           stp\<lparr>submitError := paymentFailure outp, isSubmitting := False\<rparr> \<and>
         requestsP (handleUpdatePayment_cont h netp outp) = [] \<and>
         runP stp (handleDeletePayment_cont h netp outp) =
           stp\<lparr>submitError := paymentFailure outp, isSubmitting := False\<rparr> \<and>
         requestsP (handleDeletePayment_cont h netp outp) = [] \<and>
         userFailure what outu \<noteq> None \<and>
         runU stu (handleAddUser_cont h netu stc outu) =
           stu\<lparr>addUserError := userFailure ''Failed to add user! Status: '' outu,
                isAddingUser := False\<rparr> \<and>
         requestsU (handleAddUser_cont h netu stc outu) = [] \<and>
         runU stu (handleUpdateUser_cont h netu stc outu) =
           stu\<lparr>updateUserError := userFailure ''Failed to update user! Status: '' outu,
                isUpdatingUser := False\<rparr> \<and>
         requestsU (handleUpdateUser_cont h netu stc outu) = [] \<and>
         runU stu (handleDeleteUser_cont h netu stc outu) =
           stu\<lparr>deleteError := userFailure ''Failed to delete user! Status: '' outu,
                isDeleting := False\<rparr> \<and>
         requestsU (handleDeleteUser_cont h netu stc outu) = [] \<and>
         saveInvoiceFailure (initialInvoice \<noteq> None) outi \<noteq> None \<and>
         runM m (handleSaveInvoice_cont h neti initialInvoice outi) =
           m\<lparr>m_error := saveInvoiceFailure (initialInvoice \<noteq> None) outi, m_loading := False\<rparr> \<and>
         runI sti (handleSaveInvoice_cont h neti initialInvoice outi) = sti \<and>
         requestsI (handleSaveInvoice_cont h neti initialInvoice outi) = [] \<and>
         runI sti (confirmDelete_cont h neti outi) =
           sti\<lparr>i_error := Some (case outi of Rejected msg \<Rightarrow> msg
                                 | Resolved r \<Rightarrow> ''Failed to delete invoice.''),
                showConfirmModal := False,
                toastMessage := Some ''Failed to delete invoice.'', toastType := ToastError\<rparr> \<and>
         requestsI (confirmDelete_cont h neti outi) = []"
  by (intro conjI;
      rule failed_paymentFailure [OF assms(1)] payment_mutations_failure [OF assms(1)]
        failed_userFailure [OF assms(2)] user_mutations_failure [OF assms(2)]
        failed_saveInvoiceFailure [OF assms(3)] invoice_save_failure [OF assms(3)]
        invoice_delete_failure [OF assms(3)])

theorem mutation_failure_keeps_form_witness:
  "submitError (runP filledP (handleCreatePayment_cont sampleHost listOk
                  (serverError (createPaymentRequest sampleHost filledP ''d'') ::
                     (api_payment list) outcome))) = Some ''boom'' \<and>
   showCreateModal (runP filledP (handleCreatePayment_cont sampleHost listOk
                  (serverError (createPaymentRequest sampleHost filledP ''d'') ::
                     (api_payment list) outcome))) \<and>
   newPayment (runP filledP (handleCreatePayment_cont sampleHost listOk
                  (serverError (createPaymentRequest sampleHost filledP ''d'') ::
                     (api_payment list) outcome))) = newPayment filledP \<and>
   requestsP (handleCreatePayment_cont sampleHost listOk
                (serverError (createPaymentRequest sampleHost filledP ''d'') ::
                   (api_payment list) outcome)) = [] \<and>
   addUserError (runU initialU (handleAddUser_cont sampleHost listOk initialU
                   (serverError (addUserRequest sampleHost initialU)))) =
     Some ''Failed to add user! Status: 500'' \<and>
   runM filledM (handleSaveInvoice_cont sampleHost listOk None
                   (serverError (invoicesListRequest sampleHost))) =
     filledM\<lparr>m_error := Some ''boom''\<rparr> \<and>
   requestsI (confirmDelete_cont sampleHost listOk
                (serverError (invoicesListRequest sampleHost))) = []"
proof -
  have fp: "failed (serverError (createPaymentRequest sampleHost filledP ''d'') ::
                      (api_payment list) outcome)"
    by (simp add: failed_def serverError_def reply_def ok_def)
  have fu: "failed (serverError (addUserRequest sampleHost initialU) :: (user list) outcome)"
    by (simp add: failed_def serverError_def reply_def ok_def)
  have fi: "failed (serverError (invoicesListRequest sampleHost) :: (invoice list) outcome)"
    by (simp add: failed_def serverError_def reply_def ok_def)
  have e: "paymentFailure (serverError q) = Some ''boom''"
      "userFailure w (serverError q) = Some (w @ ''500'')"
      "saveInvoiceFailure b (serverError q) = Some ''boom''" for q w b
    by (simp_all add: paymentFailure_def userFailure_def saveInvoiceFailure_def serverError_def
        reply_def ok_def orElse_def string_of_nat.simps)
  from mutation_failure_keeps_form
         [where h = sampleHost
            and netp = "listOk :: request \<Rightarrow> (api_payment list) outcome"
            and netu = listOk and neti = listOk and stp = filledP and stu = initialU
            and stc = initialU and m = filledM and initialInvoice = None, OF fp fu fi]
  show ?thesis by (simp add: e filledP_def filledM_def)
qed

text \<open>
  Claim C7: a second submit while the first is in flight is a no-op. The \<^verbatim>\<open>Delete\<close> button
  of the invoice confirmation is never disabled: clicked again before the first request is
  answered, it sends the same \<^verbatim>\<open>DELETE\<close> a second time.
\<close>

theorem confirm_delete_twice_requests_twice:
  "requestsI (clickConfirmDelete sampleHost confirmingI) =
     [deleteInvoiceRequest sampleHost sampleInvoice] \<and>
   requestsI (clickConfirmDelete sampleHost
                (runI confirmingI (clickConfirmDelete sampleHost confirmingI))) =
     [deleteInvoiceRequest sampleHost sampleInvoice]"
  by (simp add: clickConfirmDelete_def confirmingI_def loadedI_def runI_def handleDeleteClick_def
      initialI_def confirmDelete_sync_def falsy_def sampleHost_def)

text \<open>In any state that shows the confirmation, a second click repeats the request.\<close>

lemma confirm_delete_unguarded:
  assumes "showConfirmModal st" and "confirmAction st = Some i" and "\<not> falsy (token h)"
  shows "clickConfirmDelete h st = [IFetch (deleteInvoiceRequest h i)] \<and>
         clickConfirmDelete h (runI st (clickConfirmDelete h st)) =
           [IFetch (deleteInvoiceRequest h i)]"
  using assms by (simp add: clickConfirmDelete_def confirmDelete_sync_def runI_def)

text \<open>
  The other submit buttons are guarded: while the flag of the action is set a click does
  nothing, and a handler that has made its request has set the flag.
\<close>

lemma payment_submit_guard:
  assumes "isSubmitting st"
  shows "clickRecordPayment h st = [] \<and> clickUpdatePayment h st = [] \<and>
         clickDeletePayment h st = []"
  using assms by (simp add: clickRecordPayment_def clickUpdatePayment_def clickDeletePayment_def)

lemma payment_request_sets_flag:
  "requestsP (handleCreatePayment_sync h st) \<noteq> [] \<Longrightarrow>
     isSubmitting (runP st (handleCreatePayment_sync h st))"
  "requestsP (handleUpdatePayment_sync h st) \<noteq> [] \<Longrightarrow>
     isSubmitting (runP st (handleUpdatePayment_sync h st))"
  "requestsP (handleDeletePayment_sync h st) \<noteq> [] \<Longrightarrow>
     isSubmitting (runP st (handleDeletePayment_sync h st))"
  by (auto simp: runP_def handleCreatePayment_sync_def handleUpdatePayment_sync_def
      handleDeletePayment_sync_def split: option.splits)

lemma user_submit_guard:
  "isAddingUser st \<Longrightarrow> clickAddUser h st = []"
  "isUpdatingUser st \<Longrightarrow> clickUpdateUser h st = []"
  "isDeleting st \<Longrightarrow> clickDeleteUser h st = []"
  by (simp_all add: clickAddUser_def clickUpdateUser_def clickDeleteUser_def)

lemma user_request_sets_flag:
  "isAddingUser (runU st (handleAddUser_sync h st))"
  "requestsU (handleUpdateUser_sync h st) \<noteq> [] \<Longrightarrow>
     isUpdatingUser (runU st (handleUpdateUser_sync h st))"
  "requestsU (handleDeleteUser_sync h st) \<noteq> [] \<Longrightarrow>
     isDeleting (runU st (handleDeleteUser_sync h st))"
  by (auto simp: runU_def handleAddUser_sync_def handleUpdateUser_sync_def
      handleDeleteUser_sync_def split: option.splits)

lemma invoice_save_guard:
  "m_loading m \<Longrightarrow> clickSaveInvoice h initialInvoice m = []"
  "requestsI (handleSaveInvoice_sync h initialInvoice m) \<noteq> [] \<Longrightarrow>
     m_loading (runM m (handleSaveInvoice_sync h initialInvoice m))"
  by (auto simp: clickSaveInvoice_def runM_def handleSaveInvoice_sync_def split: option.splits)

section \<open>The distribution of the outstanding amount\<close>

lemma sorted_descending:
  "sorted_wrt (\<lambda>a b. outstanding b \<le> outstanding a) (sort_key (\<lambda>d. - outstanding d) ds)"
proof -
  have "sorted (map (\<lambda>d. - outstanding d) (sort_key (\<lambda>d. - outstanding d) ds))"
    by (rule sorted_sort_key)
  then show ?thesis by (simp add: sorted_map)
qed

lemma take_drop_dominates:
  assumes "sorted_wrt P xs"
  shows "sorted_wrt P (take n xs) \<and> (\<forall>x \<in> set (take n xs). \<forall>y \<in> set (drop n xs). P x y)"
proof -
  from assms have "sorted_wrt P (take n xs @ drop n xs)" by simp
  then show ?thesis unfolding sorted_wrt_append by blast
qed

lemma foldl_chart_values:
  "foldl (\<lambda>acc cur. js_add acc (chart_value cur)) a
     (map (\<lambda>d. \<lparr> name = f d, chart_value = Fin (outstanding d) \<rparr>) ds) =
   foldl (\<lambda>acc d. js_add acc (Fin (outstanding d))) a ds"
  by (simp add: foldl_map)

lemma sum_list_take_le:
  assumes "\<forall>x \<in> set xs. (0 :: int) \<le> f x"
  shows "sum_list (map f (take n xs)) \<le> sum_list (map f xs)"
proof -
  have "sum_list (map f xs) = sum_list (map f (take n xs)) + sum_list (map f (drop n xs))"
    by (metis append_take_drop_id map_append sum_list_append)
  moreover have "0 \<le> sum_list (map f (drop n xs))"
    by (rule sum_list_nonneg) (use assms in \<open>auto dest: in_set_dropD\<close>)
  ultimately show ?thesis by simp
qed

lemma sum_list_sort_key:
  fixes f :: "'a \<Rightarrow> int"
  shows "sum_list (map f (sort_key k xs)) = sum_list (map f xs)"
proof -
  have "mset (map f (sort_key k xs)) = mset (map f xs)" by simp
  then show ?thesis by (metis sum_mset_sum_list)
qed

lemma sum_list_of_int:
  "sum_list (map (\<lambda>x. of_int (f x)) xs) = (of_int (sum_list (map f xs)) :: rat)"
  by (induction xs) simp_all

lemma top_residual_exact:
  fixes ds :: "top_debtor list" and t :: rat
  assumes ints: "\<forall>d \<in> set ds. isInteger (Fin (outstanding d))"
    and tot: "isInteger (Fin t)"
    and bound: "\<bar>t\<bar> + sum_list (map (\<lambda>d. \<bar>outstanding d\<bar>) ds) \<le> maxSafeInteger"
  shows "js_sub (Fin t)
           (foldl (\<lambda>acc d. js_add acc (Fin (outstanding d))) (Fin 0)
              (take n (sort_key (\<lambda>d. - outstanding d) ds))) =
         Fin (t - sum_list (map outstanding (take n (sort_key (\<lambda>d. - outstanding d) ds))))"
proof -
  let ?top = "take n (sort_key (\<lambda>d. - outstanding d) ds)"
  let ?v = "\<lambda>d. \<lfloor>outstanding d\<rfloor>"
  let ?m = "\<lambda>d. \<bar>\<lfloor>outstanding d\<rfloor>\<bar>"
  have val: "outstanding d = of_int (?v d)" if "d \<in> set ds" for d
    using ints that by (simp add: isInteger_def)
  have tv: "t = of_int \<lfloor>t\<rfloor>" using tot by (simp add: isInteger_def)
  have mags: "sum_list (map (\<lambda>d. \<bar>outstanding d\<bar>) ds) = of_int (sum_list (map ?m ds))"
  proof -
    have "\<bar>outstanding d\<bar> = of_int (?m d)" if "d \<in> set ds" for d
      using val [OF that] by (metis of_int_abs)
    then have eq: "map (\<lambda>d. \<bar>outstanding d\<bar>) ds = map (\<lambda>d. of_int (?m d)) ds"
      by (intro map_cong) auto
    show ?thesis unfolding eq by (rule sum_list_of_int)
  qed
  have "\<bar>t\<bar> = of_int \<bar>\<lfloor>t\<rfloor>\<bar>" using tv by (metis of_int_abs)
  with bound mags have "(of_int (\<bar>\<lfloor>t\<rfloor>\<bar> + sum_list (map ?m ds)) :: rat) \<le> of_int (2 ^ 53 - 1)"
    by (simp add: maxSafeInteger_def)
  then have "\<bar>\<lfloor>t\<rfloor>\<bar> + sum_list (map ?m ds) \<le> 2 ^ 53 - 1"
    by (simp only: of_int_le_iff)
  then have B: "\<bar>\<lfloor>t\<rfloor>\<bar> + sum_list (map ?m ds) < 2 ^ 53" by simp
  have topset: "set ?top \<subseteq> set ds"
    using set_take_subset [of n "sort_key (\<lambda>d. - outstanding d) ds"] by simp
  have le: "sum_list (map ?m ?top) \<le> sum_list (map ?m ds)"
    using sum_list_take_le [of "sort_key (\<lambda>d. - outstanding d) ds" ?m n]
    by (simp add: sum_list_sort_key)
  have tn: "0 \<le> \<bar>\<lfloor>t\<rfloor>\<bar>" by simp
  have topints: "\<forall>x \<in> set (map (\<lambda>d. Fin (outstanding d)) ?top). isInteger x"
    using ints topset by auto
  have fv: "map (\<lambda>x. \<lfloor>finiteValue x\<rfloor>) (map (\<lambda>d. Fin (outstanding d)) ?top) = map ?v ?top"
       "map (\<lambda>x. \<bar>\<lfloor>finiteValue x\<rfloor>\<bar>) (map (\<lambda>d. Fin (outstanding d)) ?top) = map ?m ?top"
    by (simp_all add: finiteValue_def)
  have b0: "\<bar>0 :: int\<bar> + sum_list (map (\<lambda>x. \<bar>\<lfloor>finiteValue x\<rfloor>\<bar>)
              (map (\<lambda>d. Fin (outstanding d)) ?top)) < 2 ^ 53"
    unfolding fv using le B tn by linarith
  have sum: "foldl (\<lambda>acc d. js_add acc (Fin (outstanding d))) (Fin 0) ?top =
             Fin (of_int (sum_list (map ?v ?top)))"
    using foldl_js_add_int [OF topints b0] unfolding fv by (simp add: foldl_map)
  have exact: "sum_list (map outstanding ?top) = of_int (sum_list (map ?v ?top))"
  proof -
    have eq: "map outstanding ?top = map (\<lambda>d. of_int (?v d)) ?top"
      using val topset by (intro map_cong) auto
    show ?thesis unfolding eq by (rule sum_list_of_int)
  qed
  have "\<bar>sum_list (map ?v ?top)\<bar> \<le> sum_list (map ?m ?top)"
    using sum_list_abs [of "map ?v ?top"] by (simp add: comp_def)
  with le B have bd: "\<bar>\<lfloor>t\<rfloor> + (- sum_list (map ?v ?top))\<bar> < 2 ^ 53" by linarith
  have "js_sub (Fin (of_int \<lfloor>t\<rfloor>)) (Fin (of_int (sum_list (map ?v ?top)))) =
        Fin (of_int (\<lfloor>t\<rfloor> + (- sum_list (map ?v ?top))))"
    using js_add_int [OF bd] by (simp add: js_sub_def)
  then show ?thesis unfolding sum exact using tv by simp
qed

text \<open>
  Claim C9 asks for an \<^verbatim>\<open>Others\<close> entry holding the total minus the sum of the top
  debtors, present only when that residual is strictly positive, and absent when the total
  equals the sum. With no debtor at all the series is empty, although the whole total is left
  over. And the sum is a sum of doubles: with the debtors \<^verbatim>\<open>1\<close>, \<^verbatim>\<open>9007199254740992\<close> and
  \<^verbatim>\<open>1\<close> and the total \<^verbatim>\<open>9007199254740994\<close>, which is their sum exactly, the code adds
  the three up to \<^verbatim>\<open>9007199254740992\<close> and appends an \<^verbatim>\<open>Others\<close> entry of \<^verbatim>\<open>2\<close>.
\<close>

theorem outstandingData_others_counterexample:
  "topDebtors (statsOf 50 []) = [] \<and> totalOutstanding (statsOf 50 []) = 50 \<and>
   outstandingData (Some (statsOf 50 [])) = [] \<and>
   sum_list (map outstanding
     [debtor ''b@x'' 1, debtor ''a@x'' 9007199254740992, debtor ''c@x'' 1]) =
   9007199254740994 \<and>
   outstandingData (Some (statsOf 9007199254740994
     [debtor ''b@x'' 1, debtor ''a@x'' 9007199254740992, debtor ''c@x'' 1])) =
     [\<lparr> name = ''a'', chart_value = Fin 9007199254740992 \<rparr>,
      \<lparr> name = ''b'', chart_value = Fin 1 \<rparr>, \<lparr> name = ''c'', chart_value = Fin 1 \<rparr>,
      \<lparr> name = ''Others'', chart_value = Fin 2 \<rparr>]"
  by (simp add: statsOf_def outstandingData_def debtor_def js_sub_def
        round_double_large round_double_ties)

text \<open>
  Claim C9, as the code has it. For a non-empty debtor list the series is the four debtors
  with the largest outstanding amounts (all of them when there are fewer), in descending
  order whatever the order of the input, followed by an \<^verbatim>\<open>Others\<close> entry holding the
  residual exactly when the residual is strictly positive. The residual is the total minus
  the sum of those debtors as the code computes it, on doubles; it is the exact difference
  when the total and the outstanding amounts are integers whose magnitudes add up to at most
  \<^verbatim>\<open>Number.MAX_SAFE_INTEGER\<close>.
\<close>

theorem outstandingData_top_and_others:
  assumes "topDebtors s \<noteq> []"
  shows "let sorted = sort_key (\<lambda>d. - outstanding d) (topDebtors s);
             top = take 4 sorted;
             rest = drop 4 sorted;
             topSum = foldl (\<lambda>acc d. js_add acc (Fin (outstanding d))) (Fin 0) top;
             residual = js_sub (Fin (totalOutstanding s)) topSum
         in mset (top @ rest) = mset (topDebtors s) \<and>
            length top = min 4 (length (topDebtors s)) \<and>
            sorted_wrt (\<lambda>a b. outstanding b \<le> outstanding a) top \<and>
            (\<forall>x \<in> set top. \<forall>y \<in> set rest. outstanding y \<le> outstanding x) \<and>
            outstandingData (Some s) =
              map (\<lambda>d. \<lparr> name = takeWhile (\<lambda>c. c \<noteq> CHR ''@'') (td_clientEmail d),
                          chart_value = Fin (outstanding d) \<rparr>) top @
              (if js_positive residual
               then [\<lparr> name = ''Others'', chart_value = residual \<rparr>] else []) \<and>
            ((\<forall>d \<in> set (topDebtors s). isInteger (Fin (outstanding d))) \<and>
             isInteger (Fin (totalOutstanding s)) \<and>
             \<bar>totalOutstanding s\<bar> + sum_list (map (\<lambda>d. \<bar>outstanding d\<bar>) (topDebtors s)) \<le>
               maxSafeInteger \<longrightarrow>
             residual = Fin (totalOutstanding s - sum_list (map outstanding top)))"
proof -
  let ?sorted = "sort_key (\<lambda>d. - outstanding d) (topDebtors s)"
  let ?topSum = "foldl (\<lambda>acc d. js_add acc (Fin (outstanding d))) (Fin 0) (take 4 ?sorted)"
  let ?residual = "js_sub (Fin (totalOutstanding s)) ?topSum"
  have m: "mset (take 4 ?sorted @ drop 4 ?sorted) = mset (topDebtors s)" by simp
  have l: "length (take 4 ?sorted) = min 4 (length (topDebtors s))" by simp
  note d = take_drop_dominates [OF sorted_descending, of 4 "topDebtors s"]
  have o: "outstandingData (Some s) =
           map (\<lambda>d. \<lparr> name = takeWhile (\<lambda>c. c \<noteq> CHR ''@'') (td_clientEmail d),
                       chart_value = Fin (outstanding d) \<rparr>) (take 4 ?sorted) @
           (if js_positive ?residual
            then [\<lparr> name = ''Others'', chart_value = ?residual \<rparr>] else [])"
    using assms by (simp add: outstandingData_def Let_def foldl_chart_values)
  have e: "(\<forall>d \<in> set (topDebtors s). isInteger (Fin (outstanding d))) \<and>
           isInteger (Fin (totalOutstanding s)) \<and>
           \<bar>totalOutstanding s\<bar> + sum_list (map (\<lambda>d. \<bar>outstanding d\<bar>) (topDebtors s)) \<le>
             maxSafeInteger \<longrightarrow>
           ?residual = Fin (totalOutstanding s - sum_list (map outstanding (take 4 ?sorted)))"
    using top_residual_exact [of "topDebtors s" "totalOutstanding s" 4] by blast
  show ?thesis unfolding Let_def using m l d o e by blast
qed

theorem outstandingData_top_and_others_witness:
  "outstandingData (Some (statsOf 320 fiveDebtors)) =
     [\<lparr> name = ''a'', chart_value = Fin 100 \<rparr>, \<lparr> name = ''b'', chart_value = Fin 80 \<rparr>,
      \<lparr> name = ''c'', chart_value = Fin 60 \<rparr>, \<lparr> name = ''d'', chart_value = Fin 40 \<rparr>,
      \<lparr> name = ''Others'', chart_value = Fin 40 \<rparr>] \<and>
   outstandingData (Some (statsOf 280 fiveDebtors)) =
     [\<lparr> name = ''a'', chart_value = Fin 100 \<rparr>, \<lparr> name = ''b'', chart_value = Fin 80 \<rparr>,
      \<lparr> name = ''c'', chart_value = Fin 60 \<rparr>, \<lparr> name = ''d'', chart_value = Fin 40 \<rparr>]"
proof -
  have n: "topDebtors (statsOf t fiveDebtors) \<noteq> []" for t
    by (simp add: statsOf_def fiveDebtors_def)
  have s: "sort_key (\<lambda>d. - outstanding d) (topDebtors (statsOf t fiveDebtors)) =
           [debtor ''a@x'' 100, debtor ''b@x'' 80, debtor ''c@x'' 60, debtor ''d@x'' 40,
            debtor ''e@x'' 20]" for t
    by (simp add: statsOf_def fiveDebtors_def debtor_def)
  have i: "\<forall>d \<in> set (topDebtors (statsOf t fiveDebtors)). isInteger (Fin (outstanding d))" for t
    by (simp add: statsOf_def fiveDebtors_def debtor_def isInteger_def)
  have b: "\<bar>totalOutstanding (statsOf 320 fiveDebtors)\<bar> +
           sum_list (map (\<lambda>d. \<bar>outstanding d\<bar>) (topDebtors (statsOf 320 fiveDebtors))) \<le>
           maxSafeInteger"
          "\<bar>totalOutstanding (statsOf 280 fiveDebtors)\<bar> +
           sum_list (map (\<lambda>d. \<bar>outstanding d\<bar>) (topDebtors (statsOf 280 fiveDebtors))) \<le>
           maxSafeInteger"
    by (simp_all add: statsOf_def fiveDebtors_def debtor_def maxSafeInteger_def)
  have ti: "isInteger (Fin (totalOutstanding (statsOf 320 fiveDebtors)))"
           "isInteger (Fin (totalOutstanding (statsOf 280 fiveDebtors)))"
    by (simp_all add: statsOf_def isInteger_def)
  from outstandingData_top_and_others [OF n, of 320] i [of 320] b(1) ti(1)
  have 1: "outstandingData (Some (statsOf 320 fiveDebtors)) =
     [\<lparr> name = ''a'', chart_value = Fin 100 \<rparr>, \<lparr> name = ''b'', chart_value = Fin 80 \<rparr>,
      \<lparr> name = ''c'', chart_value = Fin 60 \<rparr>, \<lparr> name = ''d'', chart_value = Fin 40 \<rparr>,
      \<lparr> name = ''Others'', chart_value = Fin 40 \<rparr>]"
    unfolding Let_def s by (simp add: debtor_def statsOf_def)
  from outstandingData_top_and_others [OF n, of 280] i [of 280] b(2) ti(2)
  have 2: "outstandingData (Some (statsOf 280 fiveDebtors)) =
     [\<lparr> name = ''a'', chart_value = Fin 100 \<rparr>, \<lparr> name = ''b'', chart_value = Fin 80 \<rparr>,
      \<lparr> name = ''c'', chart_value = Fin 60 \<rparr>, \<lparr> name = ''d'', chart_value = Fin 40 \<rparr>]"
    unfolding Let_def s by (simp add: debtor_def statsOf_def)
  from 1 2 show ?thesis by (intro conjI)
qed


end
